theory Spec2Isabelle
  imports Main "HOL-Library.AList"
begin

section \<open>Python values that the step machinery inspects\<close>

text \<open>
  The metaclass \<open>BaseStepMeta\<close> looks at the annotations of the \<open>process\<close> function.
  An annotation is an arbitrary Python object; the code distinguishes four kinds:
  \<open>None\<close> (also the default of \<open>annotations.get\<close>), a class, an instance of \<open>Output\<close>,
  and anything else (a string annotation, a \<open>typing\<close> generic, ...).
  Classes are identified by their name.
\<close>

text \<open>
  Modelled from the spec: the class \<open>Output\<close> (module \<open>zenml.steps.step_output\<close>) is
  not among the sources. It is a multi-output declaration, "ordered name\<rightarrow>type pairs":
  \<open>PyOutput items\<close> is an instance whose \<open>items()\<close> yields \<open>items\<close> in order.
\<close>

datatype py_obj =
    PyNone
  | PyClass string
  | PyOutput "(string \<times> py_obj) list"
  | PyOther string

text \<open>\<open>isinstance(return_spec, Output)\<close>\<close>

fun is_Output :: "py_obj \<Rightarrow> bool" where
  "is_Output (PyOutput items) = True"
| "is_Output _ = False"

text \<open>The class \<open>BaseArtifact\<close>, the value of every entry of both specs.\<close>

definition BaseArtifact :: py_obj where
  "BaseArtifact = PyClass ''BaseArtifact''"

subsection \<open>Exceptions\<close>

text \<open>The six \<open>StepInterfaceError\<close>s of the file, in source order, with what their message interpolates.\<close>

datatype step_interface_error =
    OnlyOneConfig
  | ParamNoMaterializer py_obj string
  | OutputNoMaterializer py_obj string
  | ReturnNoMaterializer py_obj
  | OnlyKeywordArguments
  | CannotSerialize

text \<open>The two \<open>ValueError\<close>s of \<open>__call__\<close>: the name, and for the first the list of defined artifacts.\<close>

datatype value_error =
    ArtifactNotDefined string "string list"
  | ArtifactNotConnected string

datatype exn =
    StepInterfaceError step_interface_error
  | ValueError value_error
  | TypeError
  | UnboundLocalError
  | AssertionError
  | AttributeError
  | RuntimeError
  | RecursionError

text \<open>\<open>except RuntimeError\<close> catches \<open>RuntimeError\<close> and its subclasses.\<close>

fun is_RuntimeError :: "exn \<Rightarrow> bool" where
  "is_RuntimeError RuntimeError = True"
| "is_RuntimeError RecursionError = True"
| "is_RuntimeError _ = False"

subsection \<open>Dictionaries\<close>

text \<open>
  A Python \<open>dict\<close> keeps insertion order, and the code relies on it
  ("Resolve the returns in the right order"), so a dict is an association list.
  \<open>d.update({k: v})\<close> overwrites the value of a present key in place and appends a new key.
\<close>

definition dict_update :: "('k \<times> 'v) list \<Rightarrow> 'k \<Rightarrow> 'v \<Rightarrow> ('k \<times> 'v) list" where
  "dict_update d k v = AList.update k v d"

definition keys :: "('k \<times> 'v) list \<Rightarrow> 'k list" where
  "keys d = map fst d"

text \<open>\<open>d.get(k, None)\<close> on a dict of annotations.\<close>

definition get_or_None :: "(string \<rightharpoonup> py_obj) \<Rightarrow> string \<Rightarrow> py_obj" where
  "get_or_None d k = (case d k of None \<Rightarrow> PyNone | Some v \<Rightarrow> v)"

section \<open>Class construction: \<open>BaseStepMeta.__new__\<close>\<close>

text \<open>
  What \<open>inspect.getfullargspec\<close> returns for the \<open>process\<close> function: the names of
  the positional parameters, of \<open>*args\<close>, of \<open>**kwargs\<close> and of the keyword-only
  parameters, and the annotations (the return annotation under the key \<open>return\<close>).
  The code reads \<open>args\<close> and \<open>annotations\<close> only.
\<close>

record fullargspec =
  args :: "string list"
  varargs :: "string option"
  varkw :: "string option"
  kwonlyargs :: "string list"
  annotations :: "string \<rightharpoonup> py_obj"

text \<open>
  The collaborators that are imported from other modules: which classes are subclasses of
  \<open>BaseStepConfig\<close>, the materializer registry's \<open>is_registered\<close>, and the constant
  \<open>SINGLE_RETURN_OUT_NAME\<close>.
\<close>

record externals =
  config_subclass :: "string \<Rightarrow> bool"
  is_registered :: "py_obj \<Rightarrow> bool"
  SINGLE_RETURN_OUT_NAME :: string

text \<open>The three class attributes the metaclass sets.\<close>

record step_class =
  INPUT_SPEC :: "(string \<times> py_obj) list"
  OUTPUT_SPEC :: "(string \<times> py_obj) list"
  CONFIG :: "py_obj option"

text \<open>\<open>issubclass(arg_type, BaseStepConfig)\<close> raises \<open>TypeError\<close> when its first argument is not a class.\<close>

fun issubclass_BaseStepConfig :: "externals \<Rightarrow> py_obj \<Rightarrow> exn + bool" where
  "issubclass_BaseStepConfig ext (PyClass c) = Inr (config_subclass ext c)"
| "issubclass_BaseStepConfig ext _ = Inl TypeError"

text \<open>Lines 49-51: remove \<open>self\<close> from the signature if it is there.\<close>

fun remove_self :: "string list \<Rightarrow> string list" where
  "remove_self [] = []"
| "remove_self (a # rest) = (if a = ''self'' then rest else a # rest)"

text \<open>Lines 54-74: the loop over the parameters.\<close>

fun parse_input_signature ::
  "externals \<Rightarrow> (string \<rightharpoonup> py_obj) \<Rightarrow> string list \<Rightarrow> step_class \<Rightarrow> exn + step_class" where
  "parse_input_signature ext ann [] cls = Inr cls"
| "parse_input_signature ext ann (arg # rest) cls =
     (let arg_type = get_or_None ann arg in
      case issubclass_BaseStepConfig ext arg_type of
        Inl e \<Rightarrow> Inl e
      | Inr True \<Rightarrow>
          (if CONFIG cls \<noteq> None then Inl (StepInterfaceError OnlyOneConfig)
           else parse_input_signature ext ann rest (cls\<lparr>CONFIG := Some arg_type\<rparr>))
      | Inr False \<Rightarrow>
          (if is_registered ext arg_type
           then parse_input_signature ext ann rest
                  (cls\<lparr>INPUT_SPEC := dict_update (INPUT_SPEC cls) arg BaseArtifact\<rparr>)
           else Inl (StepInterfaceError (ParamNoMaterializer arg_type arg))))"

text \<open>Lines 82-93: the loop over the items of an \<open>Output\<close>.\<close>

fun parse_output_items ::
  "externals \<Rightarrow> (string \<times> py_obj) list \<Rightarrow> step_class \<Rightarrow> exn + step_class" where
  "parse_output_items ext [] cls = Inr cls"
| "parse_output_items ext (return_tuple # rest) cls =
     (if is_registered ext (snd return_tuple)
      then parse_output_items ext rest
             (cls\<lparr>OUTPUT_SPEC := dict_update (OUTPUT_SPEC cls) (fst return_tuple) BaseArtifact\<rparr>)
      else Inl (StepInterfaceError (OutputNoMaterializer (snd return_tuple) (fst return_tuple))))"

text \<open>Lines 77-103: the returned values.\<close>

definition infer_returned_values :: "externals \<Rightarrow> (string \<rightharpoonup> py_obj) \<Rightarrow> step_class \<Rightarrow> exn + step_class" where
  "infer_returned_values ext ann cls =
     (let return_spec = get_or_None ann ''return'' in
      case return_spec of
        PyNone \<Rightarrow> Inr cls
      | PyOutput items \<Rightarrow> parse_output_items ext items cls
      | _ \<Rightarrow>
          (if is_registered ext return_spec
           then Inr (cls\<lparr>OUTPUT_SPEC :=
                  dict_update (OUTPUT_SPEC cls) (SINGLE_RETURN_OUT_NAME ext) BaseArtifact\<rparr>)
           else Inl (StepInterfaceError (ReturnNoMaterializer return_spec))))"

text \<open>Lines 37-40: the fresh class attributes.\<close>

definition fresh_class :: step_class where
  "fresh_class = \<lparr>INPUT_SPEC = [], OUTPUT_SPEC = [], CONFIG = None\<rparr>"

text \<open>The parameter phase alone (lines 37-74), and the whole of \<open>__new__\<close>.\<close>

definition input_signature :: "externals \<Rightarrow> fullargspec \<Rightarrow> exn + step_class" where
  "input_signature ext process_spec =
     parse_input_signature ext (annotations process_spec) (remove_self (args process_spec)) fresh_class"

definition BaseStepMeta_new :: "externals \<Rightarrow> fullargspec \<Rightarrow> exn + step_class" where
  "BaseStepMeta_new ext process_spec =
     (case input_signature ext process_spec of
        Inl e \<Rightarrow> Inl e
      | Inr cls \<Rightarrow> infer_returned_values ext (annotations process_spec) cls)"

section \<open>Step instances: \<open>BaseStep\<close>\<close>

text \<open>
  A value passed to \<open>__init__\<close>. The code asks of it only \<open>isinstance(v, BaseStepConfig)\<close>
  and, of a configuration, \<open>config.dict()\<close>: an instance of (a subclass of)
  \<open>BaseStepConfig\<close> is represented by what its \<open>dict()\<close> returns or raises, with the
  fields in order; \<open>'f\<close> is the type of field values.
\<close>

datatype 'f kwarg_value =
    ConfigObj "exn + (string \<times> 'f) list"
  | OtherObj

fun isinstance_BaseStepConfig :: "'f kwarg_value \<Rightarrow> bool" where
  "isinstance_BaseStepConfig (ConfigObj d) = True"
| "isinstance_BaseStepConfig OtherObj = False"

fun dict_method :: "'f kwarg_value \<Rightarrow> exn + (string \<times> 'f) list" where
  "dict_method (ConfigObj d) = d"
| "dict_method OtherObj = Inl AttributeError"

text \<open>
  A keyword argument of the component constructor is an artifact binding or a
  serialized parameter. A component is represented by its \<open>outputs\<close> namespace:
  \<open>getattr(component.outputs, k)\<close> is the handle under \<open>k\<close>, or \<open>AttributeError\<close>.
\<close>

datatype 'a kwval = ArtifactArg 'a | ParamArg string

type_synonym 'h component_obj = "string \<rightharpoonup> 'h"

type_synonym ('a, 'h) component_ctor = "(string \<times> 'a kwval) list \<Rightarrow> exn + 'h component_obj"

text \<open>
  The instance attributes: \<open>materializers\<close>, \<open>__component\<close>, \<open>PARAM_SPEC\<close> and
  \<open>__component_class\<close> (absent until the last line of \<open>__init__\<close>).
\<close>

record ('a, 'h) step_attrs =
  materializers :: "(string \<times> string) list option"
  component :: "'h component_obj option"
  PARAM_SPEC :: "(string \<times> string) list"
  component_class :: "('a, 'h) component_ctor option"

text \<open>
  What is reachable through \<open>self\<close>: the attributes of the class (\<open>self.INPUT_SPEC\<close>
  is \<open>INPUT_SPEC (klass s)\<close>) and those of the instance. Every operation returns the
  whole of it, also when it raises.
\<close>

record ('a, 'h) step =
  klass :: step_class
  inst :: "('a, 'h) step_attrs"

text \<open>
  Lines 132-134: the dict comprehension. \<open>json.dumps\<close> is a parameter; the first
  exception it raises leaves the comprehension, and nothing is assigned.
\<close>

fun serialize_items ::
  "('f \<Rightarrow> exn + string) \<Rightarrow> (string \<times> 'f) list \<Rightarrow> (string \<times> string) list \<Rightarrow> exn + (string \<times> string) list" where
  "serialize_items json_dumps [] acc = Inr acc"
| "serialize_items json_dumps (kv # rest) acc =
     (case json_dumps (snd kv) of
        Inl e \<Rightarrow> Inl e
      | Inr s \<Rightarrow> serialize_items json_dumps rest (dict_update acc (fst kv) s))"

text \<open>
  Lines 131-134, the body of the \<open>try\<close>: reading the local \<open>config\<close> before any
  assignment raises \<open>UnboundLocalError\<close>.
\<close>

definition try_body :: "('f \<Rightarrow> exn + string) \<Rightarrow> 'f kwarg_value option \<Rightarrow> exn + (string \<times> string) list" where
  "try_body json_dumps config =
     (case config of
        None \<Rightarrow> Inl UnboundLocalError
      | Some c \<Rightarrow>
          (case dict_method c of
             Inl e \<Rightarrow> Inl e
           | Inr model_dict \<Rightarrow> serialize_items json_dumps model_dict []))"

text \<open>
  Lines 125-144: the loop over \<open>kwargs.values()\<close>. The \<open>try\<close> and the \<open>assert\<close> are
  inside the loop; the local \<open>config\<close> lives across the iterations.
\<close>

fun find_config ::
  "('f \<Rightarrow> exn + string) \<Rightarrow> 'f kwarg_value list \<Rightarrow> 'f kwarg_value option \<Rightarrow> ('a, 'h) step
     \<Rightarrow> ('a, 'h) step \<times> (exn + unit)" where
  "find_config json_dumps [] config s = (s, Inr ())"
| "find_config json_dumps (v # rest) config s =
     (let config' = (if isinstance_BaseStepConfig v then Some v else config) in
      case try_body json_dumps config' of
        Inl e \<Rightarrow>
          (s, Inl (if is_RuntimeError e then StepInterfaceError CannotSerialize else e))
      | Inr param_spec \<Rightarrow>
          (let s' = s\<lparr>inst := (inst s)\<lparr>PARAM_SPEC := param_spec\<rparr>\<rparr> in
           if param_spec = [] then (s', Inl AssertionError)
           else find_config json_dumps rest config' s'))"

text \<open>Lines 112-114: the attributes a new instance starts with.\<close>

definition new_instance :: "step_class \<Rightarrow> ('a, 'h) step" where
  "new_instance c =
     \<lparr>klass = c,
      inst = \<lparr>materializers = None, component = None, PARAM_SPEC = [], component_class = None\<rparr>\<rparr>"

text \<open>
  \<open>__init__\<close> on a new instance of class \<open>c\<close>, with the positional and the keyword
  arguments. \<open>generate_component\<close> is imported: it is a parameter, given \<open>self\<close>.
  The signature is \<open>__init__(self, *args, **kwargs)\<close>: a keyword argument named
  \<open>self\<close> collides with the receiver, and Python raises \<open>TypeError\<close> (multiple values
  for argument \<open>self\<close>) before the body runs; no attribute is assigned then, and the
  state shows the attributes by their empty values.
\<close>

definition BaseStep_init ::
  "(('a, 'h) step \<Rightarrow> ('a, 'h) component_ctor) \<Rightarrow> ('f \<Rightarrow> exn + string) \<Rightarrow> step_class
     \<Rightarrow> 'f kwarg_value list \<Rightarrow> (string \<times> 'f kwarg_value) list \<Rightarrow> ('a, 'h) step \<times> (exn + unit)" where
  "BaseStep_init generate_component json_dumps c star_args kwargs =
     (let s = new_instance c in
      if ''self'' \<in> set (keys kwargs) then (s, Inl TypeError)
      else if star_args \<noteq> [] then (s, Inl (StepInterfaceError OnlyKeywordArguments))
      else
        (case (if CONFIG (klass s) \<noteq> None then find_config json_dumps (map snd kwargs) None s
               else (s, Inr ())) of
           (s', Inl e) \<Rightarrow> (s', Inl e)
         | (s', Inr u) \<Rightarrow>
             (s'\<lparr>inst := (inst s')\<lparr>component_class := Some (generate_component s')\<rparr>\<rparr>, Inr ())))"

text \<open>
  Lines 166-168: the call \<open>f(**artifacts, **self.PARAM_SPEC)\<close>. Python raises
  \<open>TypeError\<close> (multiple values for a keyword argument) when the two dicts share a key,
  before the callee runs.
\<close>

definition call_with_kwargs ::
  "('a, 'h) component_ctor \<Rightarrow> (string \<times> 'a) list \<Rightarrow> (string \<times> string) list \<Rightarrow> exn + 'h component_obj" where
  "call_with_kwargs f artifacts param_spec =
     (if list_ex (\<lambda>k. k \<in> set (keys artifacts)) (keys param_spec) then Inl TypeError
      else f (map (\<lambda>kv. (fst kv, ArtifactArg (snd kv))) artifacts
              @ map (\<lambda>kv. (fst kv, ParamArg (snd kv))) param_spec))"

text \<open>Lines 171-173: one \<open>getattr\<close> per key of the output spec, appended in order.\<close>

fun resolve_returns :: "'h component_obj \<Rightarrow> string list \<Rightarrow> exn + 'h list" where
  "resolve_returns outputs [] = Inr []"
| "resolve_returns outputs (k # ks) =
     (case outputs k of
        None \<Rightarrow> Inl AttributeError
      | Some h \<Rightarrow>
          (case resolve_returns outputs ks of
             Inl e \<Rightarrow> Inl e
           | Inr hs \<Rightarrow> Inr (h # hs)))"

text \<open>What \<open>__call__\<close> returns: the one channel, or the list.\<close>

datatype 'h returns = Single 'h | Many "'h list"

fun one_or_list :: "'h list \<Rightarrow> 'h returns" where
  "one_or_list [h] = Single h"
| "one_or_list hs = Many hs"

text \<open>
  \<open>__call__(self, **artifacts)\<close>. A binding named \<open>self\<close> collides with the
  receiver: Python raises \<open>TypeError\<close> (multiple values for argument \<open>self\<close>) before
  the body runs. In the body, the two checking loops raise at the first name they find.
\<close>

definition BaseStep_call ::
  "('a, 'h) step \<Rightarrow> (string \<times> 'a) list \<Rightarrow> ('a, 'h) step \<times> (exn + 'h returns)" where
  "BaseStep_call s artifacts =
     (if ''self'' \<in> set (keys artifacts) then (s, Inl TypeError)
      else
      case find (\<lambda>artifact. artifact \<notin> set (keys (INPUT_SPEC (klass s)))) (keys artifacts) of
        Some artifact \<Rightarrow>
          (s, Inl (ValueError (ArtifactNotDefined artifact (keys (INPUT_SPEC (klass s))))))
      | None \<Rightarrow>
          (case find (\<lambda>artifact. artifact \<notin> set (keys artifacts)) (keys (INPUT_SPEC (klass s))) of
             Some artifact \<Rightarrow> (s, Inl (ValueError (ArtifactNotConnected artifact)))
           | None \<Rightarrow>
               (case component_class (inst s) of
                  None \<Rightarrow> (s, Inl AttributeError)
                | Some f \<Rightarrow>
                    (case call_with_kwargs f artifacts (PARAM_SPEC (inst s)) of
                       Inl e \<Rightarrow> (s, Inl e)
                     | Inr c \<Rightarrow>
                         (let s' = s\<lparr>inst := (inst s)\<lparr>component := Some c\<rparr>\<rparr> in
                          case resolve_returns c (keys (OUTPUT_SPEC (klass s'))) of
                            Inl e \<Rightarrow> (s', Inl e)
                          | Inr returns \<Rightarrow> (s', Inr (one_or_list returns)))))))"

text \<open>\<open>with_materializers\<close> returns \<open>self\<close>.\<close>

definition with_materializers :: "('a, 'h) step \<Rightarrow> (string \<times> string) list \<Rightarrow> ('a, 'h) step" where
  "with_materializers s ms = s\<lparr>inst := (inst s)\<lparr>materializers := Some ms\<rparr>\<rparr>"

section \<open>Several instances of one class\<close>

text \<open>
  The class object holds the three specs; every instance has its own attributes and
  reaches the class through \<open>self\<close>. An operation runs on the view
  \<open>\<lparr>klass, inst\<rparr>\<close> of one instance and writes back all it returns: the class
  attributes and the attributes of that instance. An instance whose \<open>__init__\<close> raised
  is not kept.
\<close>

record ('a, 'h) world =
  the_class :: step_class
  instances :: "('a, 'h) step_attrs list"

datatype ('f, 'a) operation =
    Construct "'f kwarg_value list" "(string \<times> 'f kwarg_value) list"
  | Invoke nat "(string \<times> 'a) list"
  | Inject nat "(string \<times> string) list"

fun perform ::
  "(('a, 'h) step \<Rightarrow> ('a, 'h) component_ctor) \<Rightarrow> ('f \<Rightarrow> exn + string) \<Rightarrow> ('a, 'h) world
     \<Rightarrow> ('f, 'a) operation \<Rightarrow> ('a, 'h) world" where
  "perform generate_component json_dumps w (Construct star_args kwargs) =
     (let r = BaseStep_init generate_component json_dumps (the_class w) star_args kwargs in
      case snd r of
        Inl e \<Rightarrow> w\<lparr>the_class := klass (fst r)\<rparr>
      | Inr u \<Rightarrow> w\<lparr>the_class := klass (fst r), instances := instances w @ [inst (fst r)]\<rparr>)"
| "perform generate_component json_dumps w (Invoke i artifacts) =
     (if i < length (instances w)
      then (let s = fst (BaseStep_call \<lparr>klass = the_class w, inst = instances w ! i\<rparr> artifacts) in
            w\<lparr>the_class := klass s, instances := (instances w)[i := inst s]\<rparr>)
      else w)"
| "perform generate_component json_dumps w (Inject i ms) =
     (if i < length (instances w)
      then (let s = with_materializers \<lparr>klass = the_class w, inst = instances w ! i\<rparr> ms in
            w\<lparr>the_class := klass s, instances := (instances w)[i := inst s]\<rparr>)
      else w)"

text \<open>The instance an operation works on, if it is an existing one.\<close>

fun target :: "('f, 'a) operation \<Rightarrow> nat option" where
  "target (Construct star_args kwargs) = None"
| "target (Invoke i artifacts) = Some i"
| "target (Inject i ms) = Some i"

section \<open>Vocabulary of the properties\<close>

text \<open>All the parameters a function declares, the receiver included, in order.\<close>

definition parameters :: "fullargspec \<Rightarrow> string list" where
  "parameters f =
     args f @ (case varargs f of None \<Rightarrow> [] | Some v \<Rightarrow> [v]) @ kwonlyargs f
     @ (case varkw f of None \<Rightarrow> [] | Some k \<Rightarrow> [k])"

text \<open>
  \<open>ps\<close> are the positional parameters of \<open>f\<close> without the receiver: \<open>f\<close> starts with
  \<open>self\<close> and goes on with \<open>ps\<close>, or has no receiver and \<open>ps\<close> is all of them.
\<close>

definition positional_without_receiver :: "fullargspec \<Rightarrow> string list \<Rightarrow> bool" where
  "positional_without_receiver f ps =
     (args f = ''self'' # ps \<or> (args f = ps \<and> take 1 ps \<noteq> [''self'']))"

text \<open>A parameter whose annotation is a subclass of \<open>BaseStepConfig\<close>.\<close>

definition is_config_param :: "externals \<Rightarrow> (string \<rightharpoonup> py_obj) \<Rightarrow> string \<Rightarrow> bool" where
  "is_config_param ext ann arg =
     (case get_or_None ann arg of PyClass c \<Rightarrow> config_subclass ext c | _ \<Rightarrow> False)"

text \<open>A parameter annotated with a configuration class or with a registered class.\<close>

definition is_classified :: "externals \<Rightarrow> (string \<rightharpoonup> py_obj) \<Rightarrow> string \<Rightarrow> bool" where
  "is_classified ext ann arg =
     (case get_or_None ann arg of
        PyClass c \<Rightarrow> config_subclass ext c \<or> is_registered ext (PyClass c)
      | _ \<Rightarrow> False)"

text \<open>
  A return annotation that the last phase accepts: none, an \<open>Output\<close> of registered
  types, or one registered type.
\<close>

definition return_ok :: "externals \<Rightarrow> (string \<rightharpoonup> py_obj) \<Rightarrow> bool" where
  "return_ok ext ann =
     (case get_or_None ann ''return'' of
        PyNone \<Rightarrow> True
      | PyOutput items \<Rightarrow> list_all (\<lambda>it. is_registered ext (snd it)) items
      | t \<Rightarrow> is_registered ext t)"

text \<open>The keyword arguments the component constructor receives when no name is shared.\<close>

definition merged_kwargs :: "(string \<times> 'a) list \<Rightarrow> (string \<times> string) list \<Rightarrow> (string \<times> 'a kwval) list" where
  "merged_kwargs artifacts param_spec =
     map (\<lambda>kv. (fst kv, ArtifactArg (snd kv))) artifacts
     @ map (\<lambda>kv. (fst kv, ParamArg (snd kv))) param_spec"

section \<open>Concrete steps\<close>

text \<open>
  A registry with materializers for \<open>int\<close> and \<open>str\<close>, one configuration class
  \<open>TrainerConfig\<close>, and \<open>output\<close> as the name of a single return.
\<close>

definition ex_ext :: externals where
  "ex_ext =
     \<lparr>config_subclass = (\<lambda>c. c = ''TrainerConfig''),
      is_registered = (\<lambda>t. t = PyClass ''int'' \<or> t = PyClass ''str''),
      SINGLE_RETURN_OUT_NAME = ''output''\<rparr>"

text \<open>
  \<open>json.dumps\<close> of CPython on three kinds of field values: \<open>None\<close>, a \<open>bool\<close>, and
  a \<open>set\<close>, which is not JSON serializable (\<open>TypeError\<close>).
\<close>

datatype py_value = PNone | PBool bool | PSet

fun json_dumps_py :: "py_value \<Rightarrow> exn + string" where
  "json_dumps_py PNone = Inr ''null''"
| "json_dumps_py (PBool True) = Inr ''true''"
| "json_dumps_py (PBool False) = Inr ''false''"
| "json_dumps_py PSet = Inl TypeError"

text \<open>
  A component factory that keeps the contract of the spec: the constructor accepts any
  keyword arguments and returns a component with one output handle (here the name
  itself) for every key of the step's output spec.
\<close>

definition ex_generate_component :: "(string, string) step \<Rightarrow> (string, string) component_ctor" where
  "ex_generate_component s = (\<lambda>kwargs. Inr (map_of (map (\<lambda>k. (k, k)) (keys (OUTPUT_SPEC (klass s))))))"

text \<open>\<open>def process(self, x: int, config: TrainerConfig) -> str\<close>\<close>

definition ex_trainer :: fullargspec where
  "ex_trainer =
     \<lparr>args = [''self'', ''x'', ''config''],
      varargs = None, varkw = None, kwonlyargs = [],
      annotations = [''x'' \<mapsto> PyClass ''int'', ''config'' \<mapsto> PyClass ''TrainerConfig'',
                     ''return'' \<mapsto> PyClass ''str'']\<rparr>"

definition ex_trainer_class :: step_class where
  "ex_trainer_class =
     \<lparr>INPUT_SPEC = [(''x'', BaseArtifact)], OUTPUT_SPEC = [(''output'', BaseArtifact)],
      CONFIG = Some (PyClass ''TrainerConfig'')\<rparr>"

text \<open>\<open>def process(self, a: TrainerConfig, x: int, b: TrainerConfig)\<close>\<close>

definition ex_two_configs :: fullargspec where
  "ex_two_configs =
     \<lparr>args = [''self'', ''a'', ''x'', ''b''],
      varargs = None, varkw = None, kwonlyargs = [],
      annotations = [''a'' \<mapsto> PyClass ''TrainerConfig'', ''x'' \<mapsto> PyClass ''int'',
                     ''b'' \<mapsto> PyClass ''TrainerConfig'']\<rparr>"

text \<open>\<open>def process(self, x: int) -> DataFrame\<close>, with no materializer for \<open>DataFrame\<close>\<close>

definition ex_bad_return :: fullargspec where
  "ex_bad_return =
     \<lparr>args = [''self'', ''x''],
      varargs = None, varkw = None, kwonlyargs = [],
      annotations = [''x'' \<mapsto> PyClass ''int'', ''return'' \<mapsto> PyClass ''DataFrame'']\<rparr>"

text \<open>\<open>def process(self, x)\<close>: the parameter has no annotation\<close>

definition ex_unannotated :: fullargspec where
  "ex_unannotated =
     \<lparr>args = [''self'', ''x''], varargs = None, varkw = None, kwonlyargs = [],
      annotations = Map.empty\<rparr>"

text \<open>\<open>def process(self, x: int) -> Output(first=int, second=str)\<close> and the same with \<open>second=DataFrame\<close>\<close>

definition ex_multi :: fullargspec where
  "ex_multi =
     \<lparr>args = [''self'', ''x''],
      varargs = None, varkw = None, kwonlyargs = [],
      annotations = [''x'' \<mapsto> PyClass ''int'',
        ''return'' \<mapsto> PyOutput [(''first'', PyClass ''int''), (''second'', PyClass ''str'')]]\<rparr>"

definition ex_multi_bad :: fullargspec where
  "ex_multi_bad =
     \<lparr>args = [''self'', ''x''],
      varargs = None, varkw = None, kwonlyargs = [],
      annotations = [''x'' \<mapsto> PyClass ''int'',
        ''return'' \<mapsto> PyOutput [(''first'', PyClass ''int''), (''second'', PyClass ''DataFrame'')]]\<rparr>"

text \<open>\<open>def process(self, a: TrainerConfig, *, b: TrainerConfig)\<close>: the second is keyword-only\<close>

definition ex_kwonly_config :: fullargspec where
  "ex_kwonly_config =
     \<lparr>args = [''self'', ''a''],
      varargs = None, varkw = None, kwonlyargs = [''b''],
      annotations = [''a'' \<mapsto> PyClass ''TrainerConfig'', ''b'' \<mapsto> PyClass ''TrainerConfig'']\<rparr>"

text \<open>\<open>def process(self, *, x: int)\<close>\<close>

definition ex_kwonly_input :: fullargspec where
  "ex_kwonly_input =
     \<lparr>args = [''self''],
      varargs = None, varkw = None, kwonlyargs = [''x''],
      annotations = [''x'' \<mapsto> PyClass ''int'']\<rparr>"

text \<open>\<open>def process(self, x: DataFrame, a: TrainerConfig, b: TrainerConfig)\<close>\<close>

definition ex_bad_param_two_configs :: fullargspec where
  "ex_bad_param_two_configs =
     \<lparr>args = [''self'', ''x'', ''a'', ''b''],
      varargs = None, varkw = None, kwonlyargs = [],
      annotations = [''x'' \<mapsto> PyClass ''DataFrame'', ''a'' \<mapsto> PyClass ''TrainerConfig'',
                     ''b'' \<mapsto> PyClass ''TrainerConfig'']\<rparr>"

text \<open>
  \<open>def process(self, x: DataFrame)\<close> with the return annotations \<open>int\<close>,
  \<open>Output(first=int, second=str)\<close> and \<open>Output(first=int, second=DataFrame)\<close>
\<close>

definition ex_bad_param :: "py_obj \<Rightarrow> fullargspec" where
  "ex_bad_param return_spec =
     \<lparr>args = [''self'', ''x''],
      varargs = None, varkw = None, kwonlyargs = [],
      annotations = [''x'' \<mapsto> PyClass ''DataFrame'', ''return'' \<mapsto> return_spec]\<rparr>"

text \<open>\<open>def process(x: int, self: str)\<close>: the name \<open>self\<close> is not the first parameter\<close>

definition ex_self_last :: fullargspec where
  "ex_self_last =
     \<lparr>args = [''x'', ''self''],
      varargs = None, varkw = None, kwonlyargs = [],
      annotations = [''x'' \<mapsto> PyClass ''int'', ''self'' \<mapsto> PyClass ''str'']\<rparr>"

definition ex_self_last_class :: step_class where
  "ex_self_last_class =
     \<lparr>INPUT_SPEC = [(''x'', BaseArtifact), (''self'', BaseArtifact)], OUTPUT_SPEC = [],
      CONFIG = None\<rparr>"

text \<open>
  An instance of \<open>ex_trainer_class\<close> built with \<open>config=TrainerConfig(x=True)\<close>: the
  configuration has a field named like the artifact input.
\<close>

definition ex_kwargs_x :: "(string \<times> py_value kwarg_value) list" where
  "ex_kwargs_x = [(''config'', ConfigObj (Inr [(''x'', PBool True)]))]"

text \<open>The same with \<open>config=TrainerConfig(epochs=None)\<close>, and with a field holding a set.\<close>

definition ex_kwargs :: "(string \<times> py_value kwarg_value) list" where
  "ex_kwargs = [(''config'', ConfigObj (Inr [(''epochs'', PNone)]))]"

definition ex_kwargs_set :: "(string \<times> py_value kwarg_value) list" where
  "ex_kwargs_set = [(''config'', ConfigObj (Inr [(''epochs'', PNone), (''tags'', PSet)]))]"

definition ex_step :: "(string, string) step" where
  "ex_step =
     \<lparr>klass = ex_trainer_class,
      inst = \<lparr>materializers = None, component = None, PARAM_SPEC = [(''epochs'', ''null'')],
              component_class = Some (ex_generate_component (new_instance ex_trainer_class))\<rparr>\<rparr>"

text \<open>
  Two instances of \<open>ex_trainer_class\<close>, and three operations: the first instance is
  invoked and gets materializers, and a third instance is constructed.
\<close>

definition ex_world :: "(string, string) world" where
  "ex_world = \<lparr>the_class = ex_trainer_class, instances = [inst ex_step, inst ex_step]\<rparr>"

definition ex_ops :: "(py_value, string) operation list" where
  "ex_ops =
     [Invoke 0 [(''x'', ''upstream'')],
      Inject 0 [(''x'', ''IntMaterializer'')],
      Construct [] ex_kwargs]"

section \<open>Properties of class construction\<close>

subsection \<open>The parameter loop\<close>

lemma parse_input_step:
  assumes "parse_input_signature ext ann (a # as) cls = Inr cls'"
  obtains c where "get_or_None ann a = PyClass c" "config_subclass ext c" "CONFIG cls = None"
      "parse_input_signature ext ann as (cls\<lparr>CONFIG := Some (PyClass c)\<rparr>) = Inr cls'"
  | c where "get_or_None ann a = PyClass c" "\<not> config_subclass ext c" "is_registered ext (PyClass c)"
      "parse_input_signature ext ann as
         (cls\<lparr>INPUT_SPEC := dict_update (INPUT_SPEC cls) a BaseArtifact\<rparr>) = Inr cls'"
proof -
  obtain c where c: "get_or_None ann a = PyClass c"
    using assms by (cases "get_or_None ann a") (simp_all add: Let_def)
  show thesis
  proof (cases "config_subclass ext c")
    case True
    with assms c show ?thesis
      by (intro that(1)[of c]) (simp_all add: Let_def split: if_splits)
  next
    case False
    with assms c show ?thesis
      by (intro that(2)[of c]) (simp_all add: Let_def split: if_splits)
  qed
qed

lemma parse_input_keeps_outputs:
  "parse_input_signature ext ann as cls = Inr cls' \<Longrightarrow> OUTPUT_SPEC cls' = OUTPUT_SPEC cls"
proof (induction as arbitrary: cls)
  case Nil
  then show ?case by simp
next
  case (Cons a as)
  from Cons.prems show ?case
    by (rule parse_input_step) (auto dest: Cons.IH)
qed

lemma dict_update_fresh:
  "k \<notin> set (keys d) \<Longrightarrow> dict_update d k v = d @ [(k, v)]"
  unfolding dict_update_def keys_def by (induction d) auto

lemma dict_update_values:
  "snd ` set (dict_update d k v) \<subseteq> insert v (snd ` set d)"
  unfolding dict_update_def by (induction d) auto

lemma keys_dict_update:
  "set (keys (dict_update d k v)) = insert k (set (keys d))"
  unfolding dict_update_def keys_def by (simp add: dom_update)

lemma parse_input_keys:
  "parse_input_signature ext ann as cls = Inr cls' \<Longrightarrow>
     set (keys (INPUT_SPEC cls')) =
       set (keys (INPUT_SPEC cls)) \<union> {a \<in> set as. \<not> is_config_param ext ann a}"
proof (induction as arbitrary: cls)
  case Nil
  then show ?case by simp
next
  case (Cons a as)
  from Cons.prems show ?case
  proof (rule parse_input_step)
    fix c
    assume c: "get_or_None ann a = PyClass c" "config_subclass ext c"
      and rest: "parse_input_signature ext ann as (cls\<lparr>CONFIG := Some (PyClass c)\<rparr>) = Inr cls'"
    have "is_config_param ext ann a" using c by (simp add: is_config_param_def)
    moreover have "set (keys (INPUT_SPEC cls')) =
        set (keys (INPUT_SPEC cls)) \<union> {a \<in> set as. \<not> is_config_param ext ann a}"
      using Cons.IH[OF rest] by simp
    ultimately show ?thesis by auto
  next
    fix c
    assume c: "get_or_None ann a = PyClass c" "\<not> config_subclass ext c"
      and rest: "parse_input_signature ext ann as
         (cls\<lparr>INPUT_SPEC := dict_update (INPUT_SPEC cls) a BaseArtifact\<rparr>) = Inr cls'"
    have "\<not> is_config_param ext ann a" using c by (simp add: is_config_param_def)
    moreover have "set (keys (INPUT_SPEC cls')) =
        insert a (set (keys (INPUT_SPEC cls))) \<union> {a \<in> set as. \<not> is_config_param ext ann a}"
      using Cons.IH[OF rest] by (simp add: keys_dict_update)
    ultimately show ?thesis by auto
  qed
qed

lemma parse_input_values:
  "parse_input_signature ext ann as cls = Inr cls' \<Longrightarrow>
     snd ` set (INPUT_SPEC cls) \<subseteq> {BaseArtifact} \<Longrightarrow>
     snd ` set (INPUT_SPEC cls') \<subseteq> {BaseArtifact}"
proof (induction as arbitrary: cls)
  case Nil
  then show ?case by simp
next
  case (Cons a as)
  have upd: "snd ` set (dict_update (INPUT_SPEC cls) a BaseArtifact) \<subseteq> {BaseArtifact}"
  proof -
    have "snd ` set (dict_update (INPUT_SPEC cls) a BaseArtifact)
            \<subseteq> insert BaseArtifact (snd ` set (INPUT_SPEC cls))"
      by (rule dict_update_values)
    also have "\<dots> \<subseteq> {BaseArtifact}" using Cons.prems(2) by blast
    finally show ?thesis .
  qed
  from Cons.prems(1) show ?case
  proof (rule parse_input_step)
    fix c
    assume "parse_input_signature ext ann as (cls\<lparr>CONFIG := Some (PyClass c)\<rparr>) = Inr cls'"
    from Cons.IH[OF this] Cons.prems(2) show ?thesis by simp
  next
    fix c
    assume "parse_input_signature ext ann as
         (cls\<lparr>INPUT_SPEC := dict_update (INPUT_SPEC cls) a BaseArtifact\<rparr>) = Inr cls'"
    from Cons.IH[OF this] upd show ?thesis by simp
  qed
qed

lemma parse_input_succeeds:
  "list_all (is_classified ext ann) as \<Longrightarrow>
   length (filter (is_config_param ext ann) as) + (if CONFIG cls = None then 0 else 1) \<le> 1 \<Longrightarrow>
   \<exists>cls'. parse_input_signature ext ann as cls = Inr cls'"
proof (induction as arbitrary: cls)
  case Nil
  then show ?case by simp
next
  case (Cons a as)
  from Cons.prems(1) obtain c where c: "get_or_None ann a = PyClass c"
    and ok: "config_subclass ext c \<or> is_registered ext (PyClass c)"
    by (cases "get_or_None ann a") (auto simp: is_classified_def)
  show ?case
  proof (cases "config_subclass ext c")
    case True
    then have cp: "is_config_param ext ann a" by (simp add: is_config_param_def c)
    with Cons.prems(2) have none: "CONFIG cls = None" and rest: "length (filter (is_config_param ext ann) as) = 0"
      by (auto split: if_splits)
    have "\<exists>cls'. parse_input_signature ext ann as (cls\<lparr>CONFIG := Some (PyClass c)\<rparr>) = Inr cls'"
      using Cons.IH[of "cls\<lparr>CONFIG := Some (PyClass c)\<rparr>"] Cons.prems(1) rest by simp
    with True none c show ?thesis by (simp add: Let_def)
  next
    case False
    then have cp: "\<not> is_config_param ext ann a" by (simp add: is_config_param_def c)
    have "\<exists>cls'. parse_input_signature ext ann as
        (cls\<lparr>INPUT_SPEC := dict_update (INPUT_SPEC cls) a BaseArtifact\<rparr>) = Inr cls'"
      using Cons.IH[of "cls\<lparr>INPUT_SPEC := dict_update (INPUT_SPEC cls) a BaseArtifact\<rparr>"]
        Cons.prems cp by simp
    with False ok c show ?thesis by (simp add: Let_def)
  qed
qed

lemma parse_input_two_configs:
  "list_all (is_classified ext ann) as \<Longrightarrow>
   2 \<le> length (filter (is_config_param ext ann) as) + (if CONFIG cls = None then 0 else 1) \<Longrightarrow>
   parse_input_signature ext ann as cls = Inl (StepInterfaceError OnlyOneConfig)"
proof (induction as arbitrary: cls)
  case Nil
  then show ?case by (simp split: if_splits)
next
  case (Cons a as)
  from Cons.prems(1) obtain c where c: "get_or_None ann a = PyClass c"
    and ok: "config_subclass ext c \<or> is_registered ext (PyClass c)"
    by (cases "get_or_None ann a") (auto simp: is_classified_def)
  show ?case
  proof (cases "config_subclass ext c")
    case True
    then have cp: "is_config_param ext ann a" by (simp add: is_config_param_def c)
    show ?thesis
    proof (cases "CONFIG cls = None")
      case None: True
      have "parse_input_signature ext ann as (cls\<lparr>CONFIG := Some (PyClass c)\<rparr>)
              = Inl (StepInterfaceError OnlyOneConfig)"
        using Cons.IH[of "cls\<lparr>CONFIG := Some (PyClass c)\<rparr>"] Cons.prems cp None by simp
      with True None c show ?thesis by (simp add: Let_def)
    next
      case False
      with True c show ?thesis by (simp add: Let_def)
    qed
  next
    case False
    then have cp: "\<not> is_config_param ext ann a" by (simp add: is_config_param_def c)
    have "parse_input_signature ext ann as
        (cls\<lparr>INPUT_SPEC := dict_update (INPUT_SPEC cls) a BaseArtifact\<rparr>)
          = Inl (StepInterfaceError OnlyOneConfig)"
      using Cons.IH[of "cls\<lparr>INPUT_SPEC := dict_update (INPUT_SPEC cls) a BaseArtifact\<rparr>"]
        Cons.prems cp by simp
    with False ok c show ?thesis by (simp add: Let_def)
  qed
qed

lemma parse_output_all_registered:
  "list_all (\<lambda>it. is_registered ext (snd it)) items \<Longrightarrow>
   distinct (map fst items) \<Longrightarrow>
   set (map fst items) \<inter> set (keys (OUTPUT_SPEC cls)) = {} \<Longrightarrow>
   parse_output_items ext items cls =
     Inr (cls\<lparr>OUTPUT_SPEC := OUTPUT_SPEC cls @ map (\<lambda>it. (fst it, BaseArtifact)) items\<rparr>)"
proof (induction items arbitrary: cls)
  case Nil
  then show ?case by simp
next
  case (Cons it items)
  have fresh: "fst it \<notin> set (keys (OUTPUT_SPEC cls))" using Cons.prems(3) by auto
  let ?cls = "cls\<lparr>OUTPUT_SPEC := dict_update (OUTPUT_SPEC cls) (fst it) BaseArtifact\<rparr>"
  have upd: "OUTPUT_SPEC ?cls = OUTPUT_SPEC cls @ [(fst it, BaseArtifact)]"
    by (simp add: dict_update_fresh[OF fresh])
  have "set (map fst items) \<inter> set (keys (OUTPUT_SPEC ?cls)) = {}"
    using Cons.prems(2,3) by (auto simp: upd keys_def)
  from Cons.IH[OF _ _ this] Cons.prems(1,2) show ?case
    by (simp add: dict_update_fresh[OF fresh])
qed

lemma parse_output_succeeds:
  "list_all (\<lambda>it. is_registered ext (snd it)) items \<Longrightarrow>
   \<exists>cls'. parse_output_items ext items cls = Inr cls'"
  by (induction items arbitrary: cls) auto

lemma parse_output_unregistered:
  "find (\<lambda>it. \<not> is_registered ext (snd it)) items = Some it \<Longrightarrow>
   parse_output_items ext items cls =
     Inl (StepInterfaceError (OutputNoMaterializer (snd it) (fst it)))"
  by (induction items arbitrary: cls) (auto split: if_splits)


lemma parse_output_keeps_inputs:
  "parse_output_items ext items cls = Inr cls' \<Longrightarrow> INPUT_SPEC cls' = INPUT_SPEC cls"
  by (induction items arbitrary: cls) (auto split: if_splits)

lemma infer_returned_keeps_inputs:
  "infer_returned_values ext ann cls = Inr cls' \<Longrightarrow> INPUT_SPEC cls' = INPUT_SPEC cls"
  unfolding infer_returned_values_def Let_def
  by (cases "get_or_None ann ''return''")
     (auto dest: parse_output_keeps_inputs split: if_splits)

lemma infer_returned_succeeds:
  "return_ok ext ann \<Longrightarrow> \<exists>cls'. infer_returned_values ext ann cls = Inr cls'"
  unfolding infer_returned_values_def return_ok_def Let_def
  by (cases "get_or_None ann ''return''") (simp_all add: parse_output_succeeds)

lemma input_signature_outputs_empty:
  "input_signature ext f = Inr c \<Longrightarrow> OUTPUT_SPEC c = []"
  unfolding input_signature_def
  by (drule parse_input_keeps_outputs) (simp add: fresh_class_def)

text \<open>What the parameter loop does on a list is what it does on the front, then on the rest.\<close>

lemma parse_input_append:
  "parse_input_signature ext ann (xs @ ys) cls =
     (case parse_input_signature ext ann xs cls of
        Inl e \<Rightarrow> Inl e
      | Inr c \<Rightarrow> parse_input_signature ext ann ys c)"
proof (induction xs arbitrary: cls)
  case Nil
  then show ?case by simp
next
  case (Cons a xs)
  show ?case
  proof (cases "get_or_None ann a")
    case (PyClass c)
    then show ?thesis
      by (cases "config_subclass ext c") (simp_all add: Let_def Cons.IH)
  qed (simp_all add: Let_def)
qed

text \<open>The loop accepts a list only if every name is classified and at most one is a configuration.\<close>

lemma parse_input_accepted:
  "parse_input_signature ext ann as cls = Inr cls' \<Longrightarrow>
   list_all (is_classified ext ann) as
   \<and> length (filter (is_config_param ext ann) as) + (if CONFIG cls = None then 0 else 1) \<le> 1"
proof (induction as arbitrary: cls)
  case Nil
  then show ?case by simp
next
  case (Cons a as)
  from Cons.prems show ?case
  proof (rule parse_input_step)
    fix c
    assume c: "get_or_None ann a = PyClass c" "config_subclass ext c" "CONFIG cls = None"
      and rest: "parse_input_signature ext ann as (cls\<lparr>CONFIG := Some (PyClass c)\<rparr>) = Inr cls'"
    have "is_config_param ext ann a" "is_classified ext ann a"
      using c by (simp_all add: is_config_param_def is_classified_def)
    with Cons.IH[OF rest] c(3) show ?thesis by simp
  next
    fix c
    assume c: "get_or_None ann a = PyClass c" "\<not> config_subclass ext c"
        "is_registered ext (PyClass c)"
      and rest: "parse_input_signature ext ann as
         (cls\<lparr>INPUT_SPEC := dict_update (INPUT_SPEC cls) a BaseArtifact\<rparr>) = Inr cls'"
    have "\<not> is_config_param ext ann a" "is_classified ext ann a"
      using c by (simp_all add: is_config_param_def is_classified_def)
    with Cons.IH[OF rest] show ?thesis by simp
  qed
qed

lemma remove_self_positional:
  "positional_without_receiver f ps \<Longrightarrow> remove_self (args f) = ps"
  unfolding positional_without_receiver_def by (cases ps) auto

text \<open>
  The parameter phase accepts a signature exactly when every positional parameter
  (after the receiver) is classified and at most one of them is a configuration.
\<close>

lemma input_signature_accepts_iff:
  assumes "positional_without_receiver f ps"
  shows "(\<exists>c. input_signature ext f = Inr c)
     \<longleftrightarrow> list_all (is_classified ext (annotations f)) ps
         \<and> length (filter (is_config_param ext (annotations f)) ps) \<le> 1"
proof
  assume "\<exists>c. input_signature ext f = Inr c"
  then obtain c where "parse_input_signature ext (annotations f) ps fresh_class = Inr c"
    by (auto simp: input_signature_def remove_self_positional[OF assms])
  from parse_input_accepted[OF this]
  show "list_all (is_classified ext (annotations f)) ps
         \<and> length (filter (is_config_param ext (annotations f)) ps) \<le> 1"
    by (simp add: fresh_class_def)
next
  assume "list_all (is_classified ext (annotations f)) ps
         \<and> length (filter (is_config_param ext (annotations f)) ps) \<le> 1"
  then show "\<exists>c. input_signature ext f = Inr c"
    using parse_input_succeeds[of ext "annotations f" ps fresh_class]
    by (simp add: input_signature_def remove_self_positional[OF assms] fresh_class_def)
qed

subsection \<open>The claims on class construction\<close>

text \<open>
  C2, as amended. Only the positional parameters count (those that \<open>getfullargspec\<close>
  lists under \<open>args\<close>, without the receiver); keyword-only and variadic parameters are
  not inspected. When each positional parameter is annotated with a configuration class
  or a registered class, at most one of them with a configuration class, and the return
  annotation is absent, a registered type or an \<open>Output\<close> of registered types, class
  construction succeeds. When a second positional parameter is annotated with a
  configuration class and the parameters before it are annotated with a configuration
  class or a registered class, class construction fails with the error "only one
  \<open>BaseStepConfig\<close>".
\<close>

theorem config_count_decides_construction:
  assumes "positional_without_receiver f ps"
  shows "(list_all (is_classified ext (annotations f)) ps
            \<and> length (filter (is_config_param ext (annotations f)) ps) \<le> 1
            \<and> return_ok ext (annotations f)
          \<longrightarrow> (\<exists>cls. BaseStepMeta_new ext f = Inr cls))
       \<and> (ps = pre @ b # post
            \<and> list_all (is_classified ext (annotations f)) pre
            \<and> length (filter (is_config_param ext (annotations f)) pre) = 1
            \<and> is_config_param ext (annotations f) b
          \<longrightarrow> BaseStepMeta_new ext f = Inl (StepInterfaceError OnlyOneConfig))"
proof (intro conjI impI)
  assume h: "list_all (is_classified ext (annotations f)) ps
               \<and> length (filter (is_config_param ext (annotations f)) ps) \<le> 1
               \<and> return_ok ext (annotations f)"
  then obtain c where c: "input_signature ext f = Inr c"
    using input_signature_accepts_iff[OF assms, of ext] by blast
  from h obtain cls where "infer_returned_values ext (annotations f) c = Inr cls"
    using infer_returned_succeeds by blast
  with c show "\<exists>cls. BaseStepMeta_new ext f = Inr cls"
    by (simp add: BaseStepMeta_new_def)
next
  assume h: "ps = pre @ b # post
            \<and> list_all (is_classified ext (annotations f)) pre
            \<and> length (filter (is_config_param ext (annotations f)) pre) = 1
            \<and> is_config_param ext (annotations f) b"
  then have cb: "is_classified ext (annotations f) b"
    by (cases "get_or_None (annotations f) b")
       (simp_all add: is_config_param_def is_classified_def)
  have "parse_input_signature ext (annotations f) (pre @ [b]) fresh_class
          = Inl (StepInterfaceError OnlyOneConfig)"
    using h cb by (intro parse_input_two_configs) (simp_all add: fresh_class_def)
  then have "parse_input_signature ext (annotations f) ((pre @ [b]) @ post) fresh_class
          = Inl (StepInterfaceError OnlyOneConfig)"
    by (simp only: parse_input_append sum.case)
  then have "input_signature ext f = Inl (StepInterfaceError OnlyOneConfig)"
    using h by (simp add: input_signature_def remove_self_positional[OF assms])
  then show "BaseStepMeta_new ext f = Inl (StepInterfaceError OnlyOneConfig)"
    by (simp add: BaseStepMeta_new_def)
qed

text \<open>
  C2 as stated fails in three ways.
  \<open>def process(self, x: int) -> DataFrame\<close> has no configuration parameter and a
  registered parameter type, and class construction raises for the return annotation.
  \<open>def process(self, a: TrainerConfig, *, b: TrainerConfig)\<close> has two configuration
  parameters, and class construction succeeds: the keyword-only one is not inspected.
  \<open>def process(self, x: DataFrame, a: TrainerConfig, b: TrainerConfig)\<close> has two
  configuration parameters, and the error is the one for the parameter \<open>x\<close>.
\<close>

theorem construction_fails_on_return_counterexample:
  "parameters ex_bad_return = [''self'', ''x'']
   \<and> is_classified ex_ext (annotations ex_bad_return) ''x''
   \<and> \<not> is_config_param ex_ext (annotations ex_bad_return) ''x''
   \<and> BaseStepMeta_new ex_ext ex_bad_return
       = Inl (StepInterfaceError (ReturnNoMaterializer (PyClass ''DataFrame'')))
   \<and> parameters ex_kwonly_config = [''self'', ''a'', ''b'']
   \<and> is_config_param ex_ext (annotations ex_kwonly_config) ''a''
   \<and> is_config_param ex_ext (annotations ex_kwonly_config) ''b''
   \<and> BaseStepMeta_new ex_ext ex_kwonly_config
       = Inr \<lparr>INPUT_SPEC = [], OUTPUT_SPEC = [], CONFIG = Some (PyClass ''TrainerConfig'')\<rparr>
   \<and> parameters ex_bad_param_two_configs = [''self'', ''x'', ''a'', ''b'']
   \<and> is_config_param ex_ext (annotations ex_bad_param_two_configs) ''a''
   \<and> is_config_param ex_ext (annotations ex_bad_param_two_configs) ''b''
   \<and> BaseStepMeta_new ex_ext ex_bad_param_two_configs
       = Inl (StepInterfaceError (ParamNoMaterializer (PyClass ''DataFrame'') ''x''))"
proof -
  have 1: "parameters ex_bad_return = [''self'', ''x'']
     \<and> is_classified ex_ext (annotations ex_bad_return) ''x''
     \<and> \<not> is_config_param ex_ext (annotations ex_bad_return) ''x''
     \<and> BaseStepMeta_new ex_ext ex_bad_return
         = Inl (StepInterfaceError (ReturnNoMaterializer (PyClass ''DataFrame'')))"
    by (simp add: ex_bad_return_def ex_ext_def parameters_def is_classified_def
        is_config_param_def get_or_None_def BaseStepMeta_new_def input_signature_def
        infer_returned_values_def fresh_class_def dict_update_def BaseArtifact_def)
  have 2: "parameters ex_kwonly_config = [''self'', ''a'', ''b'']
     \<and> is_config_param ex_ext (annotations ex_kwonly_config) ''a''
     \<and> is_config_param ex_ext (annotations ex_kwonly_config) ''b''
     \<and> BaseStepMeta_new ex_ext ex_kwonly_config
         = Inr \<lparr>INPUT_SPEC = [], OUTPUT_SPEC = [], CONFIG = Some (PyClass ''TrainerConfig'')\<rparr>"
    by (simp add: ex_kwonly_config_def ex_ext_def parameters_def
        is_config_param_def get_or_None_def BaseStepMeta_new_def input_signature_def
        infer_returned_values_def fresh_class_def)
  have 3: "parameters ex_bad_param_two_configs = [''self'', ''x'', ''a'', ''b'']
     \<and> is_config_param ex_ext (annotations ex_bad_param_two_configs) ''a''
     \<and> is_config_param ex_ext (annotations ex_bad_param_two_configs) ''b''
     \<and> BaseStepMeta_new ex_ext ex_bad_param_two_configs
         = Inl (StepInterfaceError (ParamNoMaterializer (PyClass ''DataFrame'') ''x''))"
    by (simp add: ex_bad_param_two_configs_def ex_ext_def parameters_def
        is_config_param_def get_or_None_def BaseStepMeta_new_def input_signature_def)
  from 1 2 3 show ?thesis by blast
qed

theorem config_count_decides_construction_witness:
  "positional_without_receiver ex_trainer [''x'', ''config'']
   \<and> list_all (is_classified ex_ext (annotations ex_trainer)) [''x'', ''config'']
   \<and> length (filter (is_config_param ex_ext (annotations ex_trainer)) [''x'', ''config'']) = 1
   \<and> return_ok ex_ext (annotations ex_trainer)
   \<and> (\<exists>cls. BaseStepMeta_new ex_ext ex_trainer = Inr cls)
   \<and> positional_without_receiver ex_two_configs ([''a'', ''x''] @ ''b'' # [])
   \<and> list_all (is_classified ex_ext (annotations ex_two_configs)) [''a'', ''x'']
   \<and> length (filter (is_config_param ex_ext (annotations ex_two_configs)) [''a'', ''x'']) = 1
   \<and> is_config_param ex_ext (annotations ex_two_configs) ''b''
   \<and> BaseStepMeta_new ex_ext ex_two_configs = Inl (StepInterfaceError OnlyOneConfig)"
proof -
  have a0: "positional_without_receiver ex_trainer [''x'', ''config'']"
    by (simp add: positional_without_receiver_def ex_trainer_def)
  have a1: "list_all (is_classified ex_ext (annotations ex_trainer)) [''x'', ''config'']"
    by (simp add: ex_trainer_def ex_ext_def is_classified_def get_or_None_def)
  have a2: "length (filter (is_config_param ex_ext (annotations ex_trainer)) [''x'', ''config'']) = 1"
    by (simp add: ex_trainer_def ex_ext_def is_config_param_def get_or_None_def)
  have a3: "return_ok ex_ext (annotations ex_trainer)"
    by (simp add: ex_trainer_def ex_ext_def return_ok_def get_or_None_def)
  have b0: "positional_without_receiver ex_two_configs ([''a'', ''x''] @ ''b'' # [])"
    by (simp add: positional_without_receiver_def ex_two_configs_def)
  have b1: "list_all (is_classified ex_ext (annotations ex_two_configs)) [''a'', ''x'']"
    by (simp add: ex_two_configs_def ex_ext_def is_classified_def get_or_None_def)
  have b2: "length (filter (is_config_param ex_ext (annotations ex_two_configs)) [''a'', ''x'']) = 1"
    by (simp add: ex_two_configs_def ex_ext_def is_config_param_def get_or_None_def)
  have b3: "is_config_param ex_ext (annotations ex_two_configs) ''b''"
    by (simp add: ex_two_configs_def ex_ext_def is_config_param_def get_or_None_def)
  from config_count_decides_construction[OF a0, where ext = ex_ext] a1 a2 a3
  have good: "\<exists>cls. BaseStepMeta_new ex_ext ex_trainer = Inr cls" by simp
  from config_count_decides_construction
         [OF b0, where ext = ex_ext and pre = "[''a'', ''x'']" and b = "''b''" and post = "[]"]
    b1 b2 b3
  have bad: "BaseStepMeta_new ex_ext ex_two_configs = Inl (StepInterfaceError OnlyOneConfig)"
    by blast
  from a0 a1 a2 a3 good b0 b1 b2 b3 bad show ?thesis by blast
qed

text \<open>
  For a class that has been constructed, the keys of the input spec are the positional
  parameters that are no configuration, and every value is \<open>BaseArtifact\<close>.
\<close>

lemma input_spec_of_constructed_class:
  assumes "BaseStepMeta_new ext f = Inr cls"
  shows "set (keys (INPUT_SPEC cls))
           = {a \<in> set (remove_self (args f)). \<not> is_config_param ext (annotations f) a}
       \<and> list_all (\<lambda>kv. snd kv = BaseArtifact) (INPUT_SPEC cls)"
proof -
  from assms obtain c where c: "input_signature ext f = Inr c"
    and r: "infer_returned_values ext (annotations f) c = Inr cls"
    by (auto simp: BaseStepMeta_new_def split: sum.splits)
  have same: "INPUT_SPEC cls = INPUT_SPEC c"
    using r by (rule infer_returned_keeps_inputs)
  have "set (keys (INPUT_SPEC c))
          = {a \<in> set (remove_self (args f)). \<not> is_config_param ext (annotations f) a}"
    using parse_input_keys[OF c[unfolded input_signature_def]]
    by (simp add: fresh_class_def keys_def)
  moreover have "snd ` set (INPUT_SPEC c) \<subseteq> {BaseArtifact}"
    using parse_input_values[OF c[unfolded input_signature_def]]
    by (simp add: fresh_class_def)
  then have "list_all (\<lambda>kv. snd kv = BaseArtifact) (INPUT_SPEC c)"
    by (auto simp: list_all_iff)
  ultimately show ?thesis by (simp add: same)
qed

text \<open>
  C3, as amended. When every positional parameter (after the receiver) is annotated with
  a configuration class or a registered class, at most one of them with a configuration
  class, and the return annotation is absent, a registered type or an \<open>Output\<close> of
  registered types, class construction yields a class whose input spec has as keys
  exactly the positional parameters that are no configuration parameters, each mapped
  to \<open>BaseArtifact\<close>. Keyword-only and variadic parameters are not inspected.
\<close>

theorem input_spec_is_non_config_params:
  assumes "positional_without_receiver f ps"
      and "list_all (is_classified ext (annotations f)) ps"
      and "length (filter (is_config_param ext (annotations f)) ps) \<le> 1"
      and "return_ok ext (annotations f)"
  shows "\<exists>cls. BaseStepMeta_new ext f = Inr cls
           \<and> set (keys (INPUT_SPEC cls)) = {a \<in> set ps. \<not> is_config_param ext (annotations f) a}
           \<and> list_all (\<lambda>kv. snd kv = BaseArtifact) (INPUT_SPEC cls)"
proof -
  obtain c where c: "input_signature ext f = Inr c"
    using input_signature_accepts_iff[OF assms(1), of ext] assms(2,3) by blast
  obtain cls where "infer_returned_values ext (annotations f) c = Inr cls"
    using infer_returned_succeeds[OF assms(4)] by blast
  with c have new: "BaseStepMeta_new ext f = Inr cls"
    by (simp add: BaseStepMeta_new_def)
  from input_spec_of_constructed_class[OF new] new show ?thesis
    by (simp add: remove_self_positional[OF assms(1)])
qed

text \<open>
  C3 as stated fails in three ways. In \<open>def process(self, *, x: int)\<close> the parameter
  \<open>x\<close> has a registered type and the input spec of the class is empty. In
  \<open>def process(self, a: TrainerConfig, x: int, b: TrainerConfig)\<close> every parameter is
  a configuration or registered, and no class is constructed; likewise in
  \<open>def process(self, x: int) -> DataFrame\<close>.
\<close>

theorem input_spec_misses_keyword_only_counterexample:
  "parameters ex_kwonly_input = [''self'', ''x'']
   \<and> is_classified ex_ext (annotations ex_kwonly_input) ''x''
   \<and> \<not> is_config_param ex_ext (annotations ex_kwonly_input) ''x''
   \<and> BaseStepMeta_new ex_ext ex_kwonly_input
       = Inr \<lparr>INPUT_SPEC = [], OUTPUT_SPEC = [], CONFIG = None\<rparr>
   \<and> parameters ex_two_configs = [''self'', ''a'', ''x'', ''b'']
   \<and> list_all (is_classified ex_ext (annotations ex_two_configs)) [''a'', ''x'', ''b'']
   \<and> BaseStepMeta_new ex_ext ex_two_configs = Inl (StepInterfaceError OnlyOneConfig)
   \<and> parameters ex_bad_return = [''self'', ''x'']
   \<and> list_all (is_classified ex_ext (annotations ex_bad_return)) [''x'']
   \<and> BaseStepMeta_new ex_ext ex_bad_return
       = Inl (StepInterfaceError (ReturnNoMaterializer (PyClass ''DataFrame'')))"
proof -
  have 1: "parameters ex_kwonly_input = [''self'', ''x'']
     \<and> is_classified ex_ext (annotations ex_kwonly_input) ''x''
     \<and> \<not> is_config_param ex_ext (annotations ex_kwonly_input) ''x''
     \<and> BaseStepMeta_new ex_ext ex_kwonly_input
         = Inr \<lparr>INPUT_SPEC = [], OUTPUT_SPEC = [], CONFIG = None\<rparr>"
    by (simp add: ex_kwonly_input_def ex_ext_def parameters_def is_classified_def
        is_config_param_def get_or_None_def BaseStepMeta_new_def input_signature_def
        infer_returned_values_def fresh_class_def)
  have 2: "parameters ex_two_configs = [''self'', ''a'', ''x'', ''b'']
     \<and> list_all (is_classified ex_ext (annotations ex_two_configs)) [''a'', ''x'', ''b'']
     \<and> BaseStepMeta_new ex_ext ex_two_configs = Inl (StepInterfaceError OnlyOneConfig)"
    by (simp add: ex_two_configs_def ex_ext_def parameters_def is_classified_def
        get_or_None_def BaseStepMeta_new_def input_signature_def fresh_class_def
        dict_update_def)
  have 3: "parameters ex_bad_return = [''self'', ''x'']
     \<and> list_all (is_classified ex_ext (annotations ex_bad_return)) [''x'']
     \<and> BaseStepMeta_new ex_ext ex_bad_return
         = Inl (StepInterfaceError (ReturnNoMaterializer (PyClass ''DataFrame'')))"
    by (simp add: ex_bad_return_def ex_ext_def parameters_def is_classified_def
        get_or_None_def BaseStepMeta_new_def input_signature_def
        infer_returned_values_def fresh_class_def dict_update_def BaseArtifact_def)
  from 1 2 3 show ?thesis by blast
qed

theorem input_spec_is_non_config_params_witness:
  "positional_without_receiver ex_trainer [''x'', ''config'']
   \<and> list_all (is_classified ex_ext (annotations ex_trainer)) [''x'', ''config'']
   \<and> length (filter (is_config_param ex_ext (annotations ex_trainer)) [''x'', ''config'']) = 1
   \<and> return_ok ex_ext (annotations ex_trainer)
   \<and> (\<exists>cls. BaseStepMeta_new ex_ext ex_trainer = Inr cls
         \<and> set (keys (INPUT_SPEC cls)) = {''x''}
         \<and> list_all (\<lambda>kv. snd kv = BaseArtifact) (INPUT_SPEC cls))"
proof -
  have a0: "positional_without_receiver ex_trainer [''x'', ''config'']"
    by (simp add: positional_without_receiver_def ex_trainer_def)
  have a1: "list_all (is_classified ex_ext (annotations ex_trainer)) [''x'', ''config'']"
    by (simp add: ex_trainer_def ex_ext_def is_classified_def get_or_None_def)
  have a2: "length (filter (is_config_param ex_ext (annotations ex_trainer)) [''x'', ''config'']) = 1"
    by (simp add: ex_trainer_def ex_ext_def is_config_param_def get_or_None_def)
  have a3: "return_ok ex_ext (annotations ex_trainer)"
    by (simp add: ex_trainer_def ex_ext_def return_ok_def get_or_None_def)
  have s: "{a \<in> set [''x'', ''config'']. \<not> is_config_param ex_ext (annotations ex_trainer) a} = {''x''}"
    by (auto simp: ex_trainer_def ex_ext_def is_config_param_def get_or_None_def)
  from input_spec_is_non_config_params[OF a0 a1 _ a3] a2
  have "\<exists>cls. BaseStepMeta_new ex_ext ex_trainer = Inr cls
         \<and> set (keys (INPUT_SPEC cls)) = {''x''}
         \<and> list_all (\<lambda>kv. snd kv = BaseArtifact) (INPUT_SPEC cls)"
    unfolding s by simp
  with a0 a1 a2 a3 show ?thesis by blast
qed

text \<open>
  C5, as amended. When the parameter loop has accepted the positional parameters and
  the return annotation is one registered type (not \<open>None\<close>, not an \<open>Output\<close>), class
  construction yields a class whose output spec is the one entry
  \<open>SINGLE_RETURN_OUT_NAME\<close>.
\<close>

theorem single_return_output_spec:
  assumes "annotations f ''return'' = Some t"
      and "t \<noteq> PyNone" and "\<not> is_Output t" and "is_registered ext t"
      and "input_signature ext f = Inr c"
  shows "\<exists>cls. BaseStepMeta_new ext f = Inr cls
           \<and> OUTPUT_SPEC cls = [(SINGLE_RETURN_OUT_NAME ext, BaseArtifact)]
           \<and> length (OUTPUT_SPEC cls) = 1"
proof -
  have empty: "OUTPUT_SPEC c = []"
    using assms(5) by (rule input_signature_outputs_empty)
  have "infer_returned_values ext (annotations f) c
          = Inr (c\<lparr>OUTPUT_SPEC := [(SINGLE_RETURN_OUT_NAME ext, BaseArtifact)]\<rparr>)"
    using assms(1-4) empty
    by (cases t) (simp_all add: infer_returned_values_def get_or_None_def dict_update_def)
  then show ?thesis using assms(5) by (simp add: BaseStepMeta_new_def)
qed

text \<open>
  C5 as stated fails: \<open>def process(self, x: DataFrame) -> int\<close> returns a single
  registered type, and class construction raises for the parameter \<open>x\<close> before it
  reads the return annotation; there is no output spec.
\<close>

theorem single_return_bad_parameter_counterexample:
  "annotations (ex_bad_param (PyClass ''int'')) ''return'' = Some (PyClass ''int'')
   \<and> is_registered ex_ext (PyClass ''int'')
   \<and> BaseStepMeta_new ex_ext (ex_bad_param (PyClass ''int''))
       = Inl (StepInterfaceError (ParamNoMaterializer (PyClass ''DataFrame'') ''x''))"
  by (simp add: ex_bad_param_def ex_ext_def get_or_None_def BaseStepMeta_new_def
      input_signature_def)

theorem single_return_output_spec_witness:
  "annotations ex_trainer ''return'' = Some (PyClass ''str'')
   \<and> is_registered ex_ext (PyClass ''str'')
   \<and> (\<exists>c. input_signature ex_ext ex_trainer = Inr c)
   \<and> (\<exists>cls. BaseStepMeta_new ex_ext ex_trainer = Inr cls
         \<and> OUTPUT_SPEC cls = [(''output'', BaseArtifact)] \<and> length (OUTPUT_SPEC cls) = 1)"
proof -
  have a1: "annotations ex_trainer ''return'' = Some (PyClass ''str'')"
    by (simp add: ex_trainer_def)
  have a4: "is_registered ex_ext (PyClass ''str'')"
    by (simp add: ex_ext_def)
  have a5: "input_signature ex_ext ex_trainer
      = Inr \<lparr>INPUT_SPEC = [(''x'', BaseArtifact)], OUTPUT_SPEC = [],
             CONFIG = Some (PyClass ''TrainerConfig'')\<rparr>"
    by (simp add: ex_trainer_def ex_ext_def input_signature_def get_or_None_def
        fresh_class_def dict_update_def)
  have "SINGLE_RETURN_OUT_NAME ex_ext = ''output''" by (simp add: ex_ext_def)
  with single_return_output_spec[OF a1 _ _ a4 a5] a1 a4 a5 show ?thesis by simp
qed

text \<open>
  C6, as amended. When the return annotation is an \<open>Output\<close> of \<open>N\<close> distinct names: if
  every type is registered and the parameter loop has accepted the positional
  parameters, class construction yields a class
  whose output spec has the \<open>N\<close> names as keys, in the order of the declaration, each
  mapped to \<open>BaseArtifact\<close>; if some type is not registered, class construction fails,
  and when the parameter loop has accepted the positional parameters the error is the
  one that carries the first name whose type is not registered, and that type.
\<close>

theorem multi_output_spec:
  assumes "annotations f ''return'' = Some (PyOutput items)"
      and "distinct (map fst items)"
  shows "(list_all (\<lambda>it. is_registered ext (snd it)) items \<and> input_signature ext f = Inr c \<longrightarrow>
           (\<exists>cls. BaseStepMeta_new ext f = Inr cls
              \<and> keys (OUTPUT_SPEC cls) = map fst items
              \<and> length (OUTPUT_SPEC cls) = length items
              \<and> list_all (\<lambda>kv. snd kv = BaseArtifact) (OUTPUT_SPEC cls)))
       \<and> (\<not> list_all (\<lambda>it. is_registered ext (snd it)) items \<longrightarrow>
           (\<exists>e. BaseStepMeta_new ext f = Inl e)
           \<and> (input_signature ext f = Inr c \<longrightarrow>
                (\<exists>pre name t post. items = pre @ (name, t) # post
                   \<and> list_all (\<lambda>it. is_registered ext (snd it)) pre
                   \<and> \<not> is_registered ext t
                   \<and> BaseStepMeta_new ext f
                       = Inl (StepInterfaceError (OutputNoMaterializer t name)))))"
proof (intro conjI impI)
  have new: "BaseStepMeta_new ext f = parse_output_items ext items c'"
    if "input_signature ext f = Inr c'" for c'
    using assms(1) that
    by (simp add: BaseStepMeta_new_def infer_returned_values_def get_or_None_def)
  {
    assume h: "list_all (\<lambda>it. is_registered ext (snd it)) items \<and> input_signature ext f = Inr c"
    then have empty: "OUTPUT_SPEC c = []"
      using input_signature_outputs_empty by blast
    have "parse_output_items ext items c
            = Inr (c\<lparr>OUTPUT_SPEC := OUTPUT_SPEC c @ map (\<lambda>it. (fst it, BaseArtifact)) items\<rparr>)"
      using h assms(2) by (intro parse_output_all_registered) (simp_all add: empty keys_def)
    then have "BaseStepMeta_new ext f
                 = Inr (c\<lparr>OUTPUT_SPEC := map (\<lambda>it. (fst it, BaseArtifact)) items\<rparr>)"
      using h by (simp add: new empty)
    then show "\<exists>cls. BaseStepMeta_new ext f = Inr cls
              \<and> keys (OUTPUT_SPEC cls) = map fst items
              \<and> length (OUTPUT_SPEC cls) = length items
              \<and> list_all (\<lambda>kv. snd kv = BaseArtifact) (OUTPUT_SPEC cls)"
      by (simp add: keys_def comp_def list_all_iff)
  }
  assume "\<not> list_all (\<lambda>it. is_registered ext (snd it)) items"
  then obtain it where f: "find (\<lambda>it. \<not> is_registered ext (snd it)) items = Some it"
    by (cases "find (\<lambda>it. \<not> is_registered ext (snd it)) items")
       (auto simp: find_None_iff list_all_iff)
  show "\<exists>e. BaseStepMeta_new ext f = Inl e"
  proof (cases "input_signature ext f")
    case (Inl e)
    then show ?thesis by (simp add: BaseStepMeta_new_def)
  next
    case (Inr c')
    then show ?thesis using parse_output_unregistered[OF f] by (simp add: new)
  qed
  {
    assume c: "input_signature ext f = Inr c"
    from f obtain i where i: "i < length items" "\<not> is_registered ext (snd (items ! i))"
        "it = items ! i" "\<forall>j<i. is_registered ext (snd (items ! j))"
      by (auto simp: find_Some_iff)
    have split: "items = take i items @ (fst it, snd it) # drop (Suc i) items"
      using i(1,3) by (simp add: id_take_nth_drop)
    have pre: "list_all (\<lambda>it. is_registered ext (snd it)) (take i items)"
      using i(1,4) by (simp add: list_all_length)
    have "BaseStepMeta_new ext f
            = Inl (StepInterfaceError (OutputNoMaterializer (snd it) (fst it)))"
      using parse_output_unregistered[OF f] by (simp add: new[OF c])
    with split pre i(2,3)
    show "\<exists>pre name t post. items = pre @ (name, t) # post
              \<and> list_all (\<lambda>it. is_registered ext (snd it)) pre
              \<and> \<not> is_registered ext t
              \<and> BaseStepMeta_new ext f
                  = Inl (StepInterfaceError (OutputNoMaterializer t name))"
      by blast
  }
qed

text \<open>
  C6 as stated fails for \<open>def process(self, x: DataFrame)\<close>: with the return
  annotation \<open>Output(first=int, second=str)\<close> no class and no output spec is
  constructed, and with \<open>Output(first=int, second=DataFrame)\<close> the error is the one
  for the parameter \<open>x\<close>, not the one that carries \<open>second\<close> and \<open>DataFrame\<close>.
\<close>

theorem multi_output_bad_parameter_counterexample:
  "annotations (ex_bad_param (PyOutput [(''first'', PyClass ''int''), (''second'', PyClass ''str'')]))
       ''return''
     = Some (PyOutput [(''first'', PyClass ''int''), (''second'', PyClass ''str'')])
   \<and> list_all (\<lambda>it. is_registered ex_ext (snd it))
        [(''first'', PyClass ''int''), (''second'', PyClass ''str'')]
   \<and> BaseStepMeta_new ex_ext
        (ex_bad_param (PyOutput [(''first'', PyClass ''int''), (''second'', PyClass ''str'')]))
       = Inl (StepInterfaceError (ParamNoMaterializer (PyClass ''DataFrame'') ''x''))
   \<and> \<not> is_registered ex_ext (PyClass ''DataFrame'')
   \<and> BaseStepMeta_new ex_ext
        (ex_bad_param (PyOutput [(''first'', PyClass ''int''), (''second'', PyClass ''DataFrame'')]))
       = Inl (StepInterfaceError (ParamNoMaterializer (PyClass ''DataFrame'') ''x''))
   \<and> BaseStepMeta_new ex_ext
        (ex_bad_param (PyOutput [(''first'', PyClass ''int''), (''second'', PyClass ''DataFrame'')]))
       \<noteq> Inl (StepInterfaceError (OutputNoMaterializer (PyClass ''DataFrame'') ''second''))"
  by (simp add: ex_bad_param_def ex_ext_def get_or_None_def BaseStepMeta_new_def
      input_signature_def)

theorem multi_output_spec_witness:
  "(\<exists>c. input_signature ex_ext ex_multi = Inr c)
   \<and> (\<exists>cls. BaseStepMeta_new ex_ext ex_multi = Inr cls
         \<and> keys (OUTPUT_SPEC cls) = [''first'', ''second''] \<and> length (OUTPUT_SPEC cls) = 2)
   \<and> (\<exists>c. input_signature ex_ext ex_multi_bad = Inr c)
   \<and> (\<exists>pre post. [(''first'', PyClass ''int''), (''second'', PyClass ''DataFrame'')]
                     = pre @ (''second'', PyClass ''DataFrame'') # post)
   \<and> BaseStepMeta_new ex_ext ex_multi_bad
        = Inl (StepInterfaceError (OutputNoMaterializer (PyClass ''DataFrame'') ''second''))"
proof -
  let ?c = "\<lparr>INPUT_SPEC = [(''x'', BaseArtifact)], OUTPUT_SPEC = [], CONFIG = None\<rparr>"
  let ?good = "[(''first'', PyClass ''int''), (''second'', PyClass ''str'')]"
  let ?bad = "[(''first'', PyClass ''int''), (''second'', PyClass ''DataFrame'')]"
  have a1: "annotations ex_multi ''return'' = Some (PyOutput ?good)"
    by (simp add: ex_multi_def)
  have b1: "annotations ex_multi_bad ''return'' = Some (PyOutput ?bad)"
    by (simp add: ex_multi_bad_def)
  have a2: "distinct (map fst ?good)" and b2: "distinct (map fst ?bad)" by simp_all
  have a3: "input_signature ex_ext ex_multi = Inr ?c"
    by (simp add: ex_multi_def ex_ext_def input_signature_def get_or_None_def
        fresh_class_def dict_update_def)
  have b3: "input_signature ex_ext ex_multi_bad = Inr ?c"
    by (simp add: ex_multi_bad_def ex_ext_def input_signature_def get_or_None_def
        fresh_class_def dict_update_def)
  have a4: "list_all (\<lambda>it. is_registered ex_ext (snd it)) ?good"
    by (simp add: ex_ext_def)
  have b4: "\<not> list_all (\<lambda>it. is_registered ex_ext (snd it)) ?bad"
    by (simp add: ex_ext_def)
  from multi_output_spec[OF a1 a2, of ex_ext ?c] a3 a4
  have good: "\<exists>cls. BaseStepMeta_new ex_ext ex_multi = Inr cls
         \<and> keys (OUTPUT_SPEC cls) = [''first'', ''second''] \<and> length (OUTPUT_SPEC cls) = 2"
    by auto
  from multi_output_spec[OF b1 b2, of ex_ext ?c] b3 b4
  obtain pre name t post where p: "?bad = pre @ (name, t) # post"
      "list_all (\<lambda>it. is_registered ex_ext (snd it)) pre" "\<not> is_registered ex_ext t"
      "BaseStepMeta_new ex_ext ex_multi_bad
         = Inl (StepInterfaceError (OutputNoMaterializer t name))"
    by blast
  have "name = ''second'' \<and> t = PyClass ''DataFrame''"
  proof (cases pre)
    case Nil
    with p(1,3) show ?thesis by (simp add: ex_ext_def)
  next
    case (Cons a pre')
    with p(1) have "[(''second'', PyClass ''DataFrame'')] = pre' @ (name, t) # post" by simp
    then show ?thesis by (cases pre') simp_all
  qed
  with p(1,4) have bad: "(\<exists>pre post. ?bad = pre @ (''second'', PyClass ''DataFrame'') # post)
     \<and> BaseStepMeta_new ex_ext ex_multi_bad
        = Inl (StepInterfaceError (OutputNoMaterializer (PyClass ''DataFrame'') ''second''))"
    by blast
  from good bad a3 b3 show ?thesis by blast
qed

text \<open>
  The part of C7 that the code keeps: a parameter annotated with a class that is neither
  a configuration class nor registered, reached without an earlier error, raises the
  \<open>StepInterfaceError\<close> that carries the class and the parameter.
\<close>

lemma unclassifiable_class_parameter:
  assumes "parse_input_signature ext ann pre cls = Inr cls'"
      and "get_or_None ann a = PyClass c"
      and "\<not> config_subclass ext c" and "\<not> is_registered ext (PyClass c)"
  shows "parse_input_signature ext ann (pre @ a # post) cls
           = Inl (StepInterfaceError (ParamNoMaterializer (PyClass c) a))"
  using assms by (simp add: parse_input_append Let_def)

text \<open>
  C7 fails on the code for a parameter without annotation: for
  \<open>def process(self, x)\<close> the annotation defaults to \<open>None\<close>, and
  \<open>issubclass(None, BaseStepConfig)\<close> raises \<open>TypeError\<close> before the branch that would
  raise the \<open>StepInterfaceError\<close> naming \<open>x\<close>.
\<close>

theorem unannotated_parameter_raises_TypeError:
  "BaseStepMeta_new ex_ext ex_unannotated = Inl TypeError
   \<and> BaseStepMeta_new ex_ext ex_unannotated
       \<noteq> Inl (StepInterfaceError (ParamNoMaterializer PyNone ''x''))"
  by (simp add: ex_unannotated_def BaseStepMeta_new_def input_signature_def get_or_None_def)

section \<open>Properties of step instances\<close>

subsection \<open>Helper facts\<close>

lemma find_first_split:
  assumes "find P xs = Some x"
  shows "\<exists>pre post. xs = pre @ x # post \<and> list_all (\<lambda>y. \<not> P y) pre \<and> P x"
proof -
  from assms obtain i where i: "i < length xs" "P (xs ! i)" "x = xs ! i" "\<forall>j<i. \<not> P (xs ! j)"
    by (auto simp: find_Some_iff)
  have "xs = take i xs @ x # drop (Suc i) xs"
    using i(1,3) by (simp add: id_take_nth_drop)
  moreover have "list_all (\<lambda>y. \<not> P y) (take i xs)"
    using i(1,4) by (simp add: list_all_length)
  ultimately show ?thesis using i(2,3) by blast
qed

lemma find_exists:
  assumes "\<exists>x\<in>set xs. P x"
  shows "\<exists>x. find P xs = Some x"
  using assms by (cases "find P xs") (auto simp: find_None_iff)

lemma one_or_list_length:
  "one_or_list hs = (if length hs = 1 then Single (hd hs) else Many hs)"
  by (cases hs rule: one_or_list.cases) simp_all

lemma resolve_returns_all_present:
  "list_all (\<lambda>k. outputs k \<noteq> None) ks \<Longrightarrow>
   resolve_returns outputs ks = Inr (map (\<lambda>k. the (outputs k)) ks)"
  by (induction ks) auto

lemma map_Some_the:
  "list_all (\<lambda>k. m k \<noteq> None) ks \<Longrightarrow> map Some (map (\<lambda>k. the (m k)) ks) = map m ks"
  by (induction ks) auto

lemma find_config_klass:
  "klass (fst (find_config json_dumps vs config s)) = klass s"
  by (induction vs arbitrary: config s) (simp_all add: Let_def split: sum.splits)

lemma BaseStep_init_klass:
  "klass (fst (BaseStep_init generate_component json_dumps c star_args kwargs)) = c"
proof -
  have k: "klass (fst (find_config json_dumps (map snd kwargs) None (new_instance c :: ('a, 'b) step))) = c"
    by (simp add: find_config_klass new_instance_def)
  show ?thesis
  proof (cases "find_config json_dumps (map snd kwargs) None (new_instance c :: ('a, 'b) step)")
    case (Pair s' r)
    with k show ?thesis
      by (cases r) (simp_all add: BaseStep_init_def Let_def new_instance_def)
  qed
qed

lemma BaseStep_call_klass:
  "klass (fst (BaseStep_call s artifacts)) = klass s"
  unfolding BaseStep_call_def Let_def
  by (simp split: option.splits sum.splits)

lemma with_materializers_klass:
  "klass (with_materializers s ms) = klass s"
  by (simp add: with_materializers_def)

subsection \<open>The claims on invocation\<close>

text \<open>
  C1, as amended. When the supplied names are exactly the keys of the input spec, the
  name \<open>self\<close> and the keys of the parameter spec are not among them, and the
  component constructor returns a component that has a handle for every key of the
  output spec, \<open>__call__\<close> stores the
  component and returns the handles of the output spec's keys in their order: the
  handle itself when there is one key, the list otherwise.
\<close>

theorem call_returns_output_handles:
  assumes "set (keys artifacts) = set (keys (INPUT_SPEC (klass s)))"
      and "''self'' \<notin> set (keys artifacts)"
      and "set (keys artifacts) \<inter> set (keys (PARAM_SPEC (inst s))) = {}"
      and "component_class (inst s) = Some f"
      and "f (merged_kwargs artifacts (PARAM_SPEC (inst s))) = Inr c"
      and "list_all (\<lambda>k. c k \<noteq> None) (keys (OUTPUT_SPEC (klass s)))"
  shows "\<exists>hs. map Some hs = map c (keys (OUTPUT_SPEC (klass s)))
           \<and> length hs = length (OUTPUT_SPEC (klass s))
           \<and> BaseStep_call s artifacts
               = (s\<lparr>inst := (inst s)\<lparr>component := Some c\<rparr>\<rparr>,
                  Inr (if length (OUTPUT_SPEC (klass s)) = 1 then Single (hd hs) else Many hs))"
proof -
  let ?hs = "map (\<lambda>k. the (c k)) (keys (OUTPUT_SPEC (klass s)))"
  have no_extra: "find (\<lambda>artifact. artifact \<notin> set (keys (INPUT_SPEC (klass s)))) (keys artifacts) = None"
    using assms(1) by (simp add: find_None_iff)
  have no_missing: "find (\<lambda>artifact. artifact \<notin> set (keys artifacts)) (keys (INPUT_SPEC (klass s))) = None"
    using assms(1) by (simp add: find_None_iff)
  have "\<not> list_ex (\<lambda>k. k \<in> set (keys artifacts)) (keys (PARAM_SPEC (inst s)))"
    using assms(3) by (auto simp: list_ex_iff)
  then have ctor: "call_with_kwargs f artifacts (PARAM_SPEC (inst s)) = Inr c"
    using assms(5) by (simp add: call_with_kwargs_def merged_kwargs_def)
  have res: "resolve_returns c (keys (OUTPUT_SPEC (klass s))) = Inr ?hs"
    using assms(6) by (rule resolve_returns_all_present)
  have len: "length ?hs = length (OUTPUT_SPEC (klass s))"
    by (simp add: keys_def)
  have call: "BaseStep_call s artifacts
      = (s\<lparr>inst := (inst s)\<lparr>component := Some c\<rparr>\<rparr>, Inr (one_or_list ?hs))"
    by (simp add: BaseStep_call_def assms(2) no_extra no_missing assms(4) ctor res Let_def)
  have shape: "one_or_list ?hs
      = (if length (OUTPUT_SPEC (klass s)) = 1 then Single (hd ?hs) else Many ?hs)"
    by (simp only: one_or_list_length len)
  have same: "map Some ?hs = map c (keys (OUTPUT_SPEC (klass s)))"
    using assms(6) by (rule map_Some_the)
  show ?thesis
    by (rule exI[of _ ?hs]) (simp only: same len call shape simp_thms)
qed

text \<open>
  C1 as stated fails in two ways. The class of
  \<open>def process(self, x: int, config: TrainerConfig) -> str\<close>, instantiated with a
  configuration that has a field \<open>x\<close>, is called with exactly the declared artifact
  \<open>x\<close>: the call \<open>f(**artifacts, **self.PARAM_SPEC)\<close> raises \<open>TypeError\<close>. The class of
  \<open>def process(x: int, self: str)\<close> has the input spec keys \<open>x\<close> and \<open>self\<close>: a call
  with exactly these names raises \<open>TypeError\<close> when the arguments are bound.
\<close>

theorem call_shared_name_counterexample:
  "BaseStepMeta_new ex_ext ex_trainer = Inr ex_trainer_class
   \<and> snd (BaseStep_init ex_generate_component json_dumps_py ex_trainer_class [] ex_kwargs_x) = Inr ()
   \<and> set (keys [(''x'', ''upstream'')])
       = set (keys (INPUT_SPEC (klass (fst (BaseStep_init ex_generate_component json_dumps_py
                                              ex_trainer_class [] ex_kwargs_x)))))
   \<and> snd (BaseStep_call (fst (BaseStep_init ex_generate_component json_dumps_py
                                  ex_trainer_class [] ex_kwargs_x)) [(''x'', ''upstream'')])
       = Inl TypeError
   \<and> BaseStepMeta_new ex_ext ex_self_last = Inr ex_self_last_class
   \<and> snd (BaseStep_init ex_generate_component json_dumps_py ex_self_last_class [] []) = Inr ()
   \<and> set (keys [(''x'', ''upstream''), (''self'', ''upstream'')])
       = set (keys (INPUT_SPEC (klass (fst (BaseStep_init ex_generate_component json_dumps_py
                                              ex_self_last_class [] [])))))
   \<and> snd (BaseStep_call (fst (BaseStep_init ex_generate_component json_dumps_py
                                  ex_self_last_class [] []))
              [(''x'', ''upstream''), (''self'', ''upstream'')])
       = Inl TypeError"
proof -
  have new: "BaseStepMeta_new ex_ext ex_trainer = Inr ex_trainer_class"
    by (simp add: ex_trainer_def ex_ext_def ex_trainer_class_def get_or_None_def
        BaseStepMeta_new_def input_signature_def infer_returned_values_def
        fresh_class_def dict_update_def BaseArtifact_def)
  have init: "BaseStep_init ex_generate_component json_dumps_py ex_trainer_class [] ex_kwargs_x
      = (\<lparr>klass = ex_trainer_class,
          inst = \<lparr>materializers = None, component = None, PARAM_SPEC = [(''x'', ''true'')],
                  component_class = Some (ex_generate_component
                    \<lparr>klass = ex_trainer_class,
                     inst = \<lparr>materializers = None, component = None,
                             PARAM_SPEC = [(''x'', ''true'')], component_class = None\<rparr>\<rparr>)\<rparr>\<rparr>,
         Inr ())"
    by (simp add: BaseStep_init_def new_instance_def ex_kwargs_x_def ex_trainer_class_def
        try_body_def dict_update_def keys_def Let_def)
  have shared: "snd (BaseStep_init ex_generate_component json_dumps_py ex_trainer_class [] ex_kwargs_x) = Inr ()
   \<and> set (keys [(''x'', ''upstream'')])
       = set (keys (INPUT_SPEC (klass (fst (BaseStep_init ex_generate_component json_dumps_py
                                              ex_trainer_class [] ex_kwargs_x)))))
   \<and> snd (BaseStep_call (fst (BaseStep_init ex_generate_component json_dumps_py
                                  ex_trainer_class [] ex_kwargs_x)) [(''x'', ''upstream'')])
       = Inl TypeError"
    unfolding init
    by (simp add: BaseStep_call_def call_with_kwargs_def keys_def ex_trainer_class_def)
  have new': "BaseStepMeta_new ex_ext ex_self_last = Inr ex_self_last_class"
    by (simp add: ex_self_last_def ex_ext_def ex_self_last_class_def get_or_None_def
        BaseStepMeta_new_def input_signature_def infer_returned_values_def
        fresh_class_def dict_update_def BaseArtifact_def)
  have init': "BaseStep_init ex_generate_component json_dumps_py ex_self_last_class [] []
      = (\<lparr>klass = ex_self_last_class,
          inst = \<lparr>materializers = None, component = None, PARAM_SPEC = [],
                  component_class = Some (ex_generate_component
                    (new_instance ex_self_last_class))\<rparr>\<rparr>,
         Inr ())"
    by (simp add: BaseStep_init_def new_instance_def ex_self_last_class_def keys_def Let_def)
  have receiver: "snd (BaseStep_init ex_generate_component json_dumps_py ex_self_last_class [] []) = Inr ()
   \<and> set (keys [(''x'', ''upstream''), (''self'', ''upstream'')])
       = set (keys (INPUT_SPEC (klass (fst (BaseStep_init ex_generate_component json_dumps_py
                                              ex_self_last_class [] [])))))
   \<and> snd (BaseStep_call (fst (BaseStep_init ex_generate_component json_dumps_py
                                  ex_self_last_class [] []))
              [(''x'', ''upstream''), (''self'', ''upstream'')])
       = Inl TypeError"
    unfolding init'
    by (simp add: BaseStep_call_def keys_def ex_self_last_class_def)
  from new shared new' receiver show ?thesis by blast
qed

theorem call_returns_output_handles_witness:
  "set (keys [(''x'', ''upstream'')]) = set (keys (INPUT_SPEC (klass ex_step)))
   \<and> ''self'' \<notin> set (keys [(''x'', ''upstream'')])
   \<and> set (keys [(''x'', ''upstream'')]) \<inter> set (keys (PARAM_SPEC (inst ex_step))) = {}
   \<and> length (OUTPUT_SPEC (klass ex_step)) = 1
   \<and> snd (BaseStep_call ex_step [(''x'', ''upstream'')]) = Inr (Single ''output'')"
proof -
  let ?c = "map_of [(''output'', ''output'')]"
  let ?f = "ex_generate_component (new_instance ex_trainer_class)"
  have a1: "set (keys [(''x'', ''upstream'')]) = set (keys (INPUT_SPEC (klass ex_step)))"
    by (simp add: ex_step_def ex_trainer_class_def keys_def)
  have a2: "set (keys [(''x'', ''upstream'')]) \<inter> set (keys (PARAM_SPEC (inst ex_step))) = {}"
    by (simp add: ex_step_def keys_def)
  have a6: "''self'' \<notin> set (keys [(''x'', ''upstream'')])"
    by (simp add: keys_def)
  have a3: "component_class (inst ex_step) = Some ?f"
    by (simp add: ex_step_def)
  have a4: "?f (merged_kwargs [(''x'', ''upstream'')] (PARAM_SPEC (inst ex_step))) = Inr ?c"
    by (simp add: ex_generate_component_def new_instance_def ex_trainer_class_def keys_def)
  have a5: "list_all (\<lambda>k. ?c k \<noteq> None) (keys (OUTPUT_SPEC (klass ex_step)))"
    by (simp add: ex_step_def ex_trainer_class_def keys_def)
  have len: "length (OUTPUT_SPEC (klass ex_step)) = 1"
    by (simp add: ex_step_def ex_trainer_class_def)
  have ks: "keys (OUTPUT_SPEC (klass ex_step)) = [''output'']"
    by (simp add: ex_step_def ex_trainer_class_def keys_def)
  from call_returns_output_handles[OF a1 a6 a2 a3 a4 a5]
  obtain hs where hs: "map Some hs = map ?c (keys (OUTPUT_SPEC (klass ex_step)))"
      and call: "BaseStep_call ex_step [(''x'', ''upstream'')]
         = (ex_step\<lparr>inst := (inst ex_step)\<lparr>component := Some ?c\<rparr>\<rparr>,
            Inr (if length (OUTPUT_SPEC (klass ex_step)) = 1 then Single (hd hs) else Many hs))"
    by blast
  from hs have "hs = [''output'']"
    unfolding ks by (cases hs) simp_all
  with call len have "snd (BaseStep_call ex_step [(''x'', ''upstream'')]) = Inr (Single ''output'')"
    by simp
  with a1 a2 a6 len show ?thesis by blast
qed

text \<open>
  C4, as amended. When the name \<open>self\<close> is not among the supplied names and the
  supplied names are not exactly the keys of the input spec, \<open>__call__\<close> raises a
  \<open>ValueError\<close> and changes nothing: if some supplied name is not declared,
  the error for an undefined artifact, carrying the first such name; otherwise the error
  for an unconnected artifact, carrying the first declared name that is not supplied.
\<close>

theorem call_reports_mismatch:
  assumes "set (keys artifacts) \<noteq> set (keys (INPUT_SPEC (klass s)))"
      and "''self'' \<notin> set (keys artifacts)"
  shows "(\<not> set (keys artifacts) \<subseteq> set (keys (INPUT_SPEC (klass s))) \<longrightarrow>
           (\<exists>pre name post. keys artifacts = pre @ name # post
              \<and> set pre \<subseteq> set (keys (INPUT_SPEC (klass s)))
              \<and> name \<notin> set (keys (INPUT_SPEC (klass s)))
              \<and> BaseStep_call s artifacts
                  = (s, Inl (ValueError (ArtifactNotDefined name (keys (INPUT_SPEC (klass s))))))))
       \<and> (set (keys artifacts) \<subseteq> set (keys (INPUT_SPEC (klass s))) \<longrightarrow>
           (\<exists>pre name post. keys (INPUT_SPEC (klass s)) = pre @ name # post
              \<and> set pre \<subseteq> set (keys artifacts)
              \<and> name \<notin> set (keys artifacts)
              \<and> BaseStep_call s artifacts = (s, Inl (ValueError (ArtifactNotConnected name)))))"
proof (intro conjI impI)
  let ?extra = "\<lambda>artifact. artifact \<notin> set (keys (INPUT_SPEC (klass s)))"
  let ?missing = "\<lambda>artifact. artifact \<notin> set (keys artifacts)"
  {
    assume "\<not> set (keys artifacts) \<subseteq> set (keys (INPUT_SPEC (klass s)))"
    then have "\<exists>x\<in>set (keys artifacts). ?extra x" by blast
    then obtain name where f: "find ?extra (keys artifacts) = Some name"
      using find_exists by fastforce
    from find_first_split[OF f] obtain pre post where
      sp: "keys artifacts = pre @ name # post" "list_all (\<lambda>y. \<not> ?extra y) pre" "?extra name"
      by blast
    have "set pre \<subseteq> set (keys (INPUT_SPEC (klass s)))"
      using sp(2) by (auto simp: list_all_iff)
    moreover have "BaseStep_call s artifacts
        = (s, Inl (ValueError (ArtifactNotDefined name (keys (INPUT_SPEC (klass s))))))"
      by (simp add: BaseStep_call_def assms(2) f)
    ultimately show "\<exists>pre name post. keys artifacts = pre @ name # post
              \<and> set pre \<subseteq> set (keys (INPUT_SPEC (klass s)))
              \<and> name \<notin> set (keys (INPUT_SPEC (klass s)))
              \<and> BaseStep_call s artifacts
                  = (s, Inl (ValueError (ArtifactNotDefined name (keys (INPUT_SPEC (klass s))))))"
      using sp(1,3) by blast
  }
  {
    assume sub: "set (keys artifacts) \<subseteq> set (keys (INPUT_SPEC (klass s)))"
    then have none: "find ?extra (keys artifacts) = None"
      by (auto simp: find_None_iff)
    from sub assms(1) have "\<exists>x\<in>set (keys (INPUT_SPEC (klass s))). ?missing x" by blast
    then obtain name where f: "find ?missing (keys (INPUT_SPEC (klass s))) = Some name"
      using find_exists by fastforce
    from find_first_split[OF f] obtain pre post where
      sp: "keys (INPUT_SPEC (klass s)) = pre @ name # post"
          "list_all (\<lambda>y. \<not> ?missing y) pre" "?missing name"
      by blast
    have "set pre \<subseteq> set (keys artifacts)"
      using sp(2) by (auto simp: list_all_iff)
    moreover have "BaseStep_call s artifacts = (s, Inl (ValueError (ArtifactNotConnected name)))"
      by (simp add: BaseStep_call_def assms(2) none f)
    ultimately show "\<exists>pre name post. keys (INPUT_SPEC (klass s)) = pre @ name # post
              \<and> set pre \<subseteq> set (keys artifacts)
              \<and> name \<notin> set (keys artifacts)
              \<and> BaseStep_call s artifacts = (s, Inl (ValueError (ArtifactNotConnected name)))"
      using sp(1,3) by blast
  }
qed

text \<open>
  C4 as stated fails for a binding named \<open>self\<close>: it is a name that the input spec
  does not declare, and the call raises \<open>TypeError\<close> when the arguments are bound, not
  the error that reports the name.
\<close>

theorem call_binding_named_self_counterexample:
  "''self'' \<in> set (keys [(''self'', ''up''), (''x'', ''up'')])
   \<and> ''self'' \<notin> set (keys (INPUT_SPEC (klass ex_step)))
   \<and> BaseStep_call ex_step [(''self'', ''up''), (''x'', ''up'')] = (ex_step, Inl TypeError)"
  by (simp add: BaseStep_call_def keys_def ex_step_def ex_trainer_class_def)

theorem call_reports_mismatch_witness:
  "set (keys [(''x'', ''up''), (''z'', ''up'')]) \<noteq> set (keys (INPUT_SPEC (klass ex_step)))
   \<and> ''self'' \<notin> set (keys [(''x'', ''up''), (''z'', ''up'')])
   \<and> BaseStep_call ex_step [(''x'', ''up''), (''z'', ''up'')]
       = (ex_step, Inl (ValueError (ArtifactNotDefined ''z'' [''x''])))
   \<and> set (keys ([] :: (string \<times> string) list)) \<noteq> set (keys (INPUT_SPEC (klass ex_step)))
   \<and> BaseStep_call ex_step [] = (ex_step, Inl (ValueError (ArtifactNotConnected ''x'')))"
proof -
  have ks: "keys (INPUT_SPEC (klass ex_step)) = [''x'']"
    by (simp add: ex_step_def ex_trainer_class_def keys_def)
  have a1: "set (keys [(''x'', ''up''), (''z'', ''up'')]) \<noteq> set (keys (INPUT_SPEC (klass ex_step)))"
    unfolding ks by (simp add: keys_def)
  have b1: "set (keys ([] :: (string \<times> string) list)) \<noteq> set (keys (INPUT_SPEC (klass ex_step)))"
    unfolding ks by (simp add: keys_def)
  have a2: "''self'' \<notin> set (keys [(''x'', ''up''), (''z'', ''up'')])"
    and b2: "''self'' \<notin> set (keys ([] :: (string \<times> string) list))"
    by (simp_all add: keys_def)
  have "\<not> set (keys [(''x'', ''up''), (''z'', ''up'')]) \<subseteq> set (keys (INPUT_SPEC (klass ex_step)))"
    unfolding ks by (simp add: keys_def)
  with call_reports_mismatch[OF a1 a2] obtain pre name post where
    e: "keys [(''x'', ''up''), (''z'', ''up'')] = pre @ name # post"
       "set pre \<subseteq> set (keys (INPUT_SPEC (klass ex_step)))"
       "name \<notin> set (keys (INPUT_SPEC (klass ex_step)))"
       "BaseStep_call ex_step [(''x'', ''up''), (''z'', ''up'')]
          = (ex_step, Inl (ValueError (ArtifactNotDefined name (keys (INPUT_SPEC (klass ex_step))))))"
    by blast
  from e(1) have "''x'' # [''z''] = pre @ name # post" by (simp add: keys_def)
  then have "(pre = [] \<and> name = ''x'') \<or> (pre = [''x''] \<and> name = ''z'')"
    by (auto simp: Cons_eq_append_conv)
  with e(3) have "name = ''z''" unfolding ks by auto
  with e(4) have extra: "BaseStep_call ex_step [(''x'', ''up''), (''z'', ''up'')]
       = (ex_step, Inl (ValueError (ArtifactNotDefined ''z'' [''x''])))"
    unfolding ks by simp
  have "set (keys ([] :: (string \<times> string) list)) \<subseteq> set (keys (INPUT_SPEC (klass ex_step)))"
    by (simp add: keys_def)
  with call_reports_mismatch[OF b1 b2] obtain pre' name' post' where
    m: "keys (INPUT_SPEC (klass ex_step)) = pre' @ name' # post'"
       "BaseStep_call ex_step [] = (ex_step, Inl (ValueError (ArtifactNotConnected name')))"
    by blast
  from m(1) have "name' = ''x''"
    unfolding ks by (auto simp: Cons_eq_append_conv)
  with m(2) have missing: "BaseStep_call ex_step [] = (ex_step, Inl (ValueError (ArtifactNotConnected ''x'')))"
    by simp
  from a1 a2 b1 extra missing show ?thesis by blast
qed

subsection \<open>The claims on instance construction\<close>

text \<open>
  The loop over the keyword values leaves the state as it is, with the exception, when
  the body of the \<open>try\<close> raises in the first iteration: nothing is assigned to
  \<open>PARAM_SPEC\<close>.
\<close>

lemma find_config_first_raises:
  "try_body json_dumps (if isinstance_BaseStepConfig v then Some v else config) = Inl e \<Longrightarrow>
   find_config json_dumps (v # rest) config s
     = (s, Inl (if is_RuntimeError e then StepInterfaceError CannotSerialize else e))"
  by (simp add: Let_def)

text \<open>
  With a configuration class declared: keyword values that start with one that is no
  configuration raise \<open>UnboundLocalError\<close>.
\<close>

lemma init_first_value_no_config:
  "CONFIG c \<noteq> None \<Longrightarrow> ''self'' \<notin> set (keys ((k, OtherObj) # kwargs)) \<Longrightarrow>
   snd (BaseStep_init generate_component json_dumps c [] ((k, OtherObj) # kwargs))
     = Inl UnboundLocalError"
  by (simp add: BaseStep_init_def new_instance_def try_body_def Let_def)

text \<open>
  C8 fails on the code when there is no keyword argument: whatever the configuration
  class \<open>cfg\<close> of the step class, \<open>__init__\<close> without arguments returns normally, with an
  empty \<open>PARAM_SPEC\<close>. The loop that holds the \<open>assert\<close> has no iteration.
\<close>

theorem init_without_kwargs_completes:
  "CONFIG (c\<lparr>CONFIG := Some cfg\<rparr>) = Some cfg
   \<and> snd (BaseStep_init generate_component json_dumps (c\<lparr>CONFIG := Some cfg\<rparr>) [] []) = Inr ()
   \<and> PARAM_SPEC (inst (fst (BaseStep_init generate_component json_dumps
                               (c\<lparr>CONFIG := Some cfg\<rparr>) [] []))) = []"
  by (simp add: BaseStep_init_def new_instance_def keys_def Let_def)

text \<open>
  C9 fails on the code for a field that \<open>json.dumps\<close> rejects with \<open>TypeError\<close>:
  with \<open>config=TrainerConfig(epochs=None, tags=set())\<close> the \<open>TypeError\<close> of \<open>json.dumps\<close>
  leaves \<open>__init__\<close>, since the handler catches \<open>RuntimeError\<close> only. \<open>PARAM_SPEC\<close> is
  still empty then.
\<close>

theorem init_unserializable_raises_TypeError:
  "CONFIG ex_trainer_class = Some (PyClass ''TrainerConfig'')
   \<and> snd (BaseStep_init ex_generate_component json_dumps_py ex_trainer_class [] ex_kwargs_set)
       = Inl TypeError
   \<and> PARAM_SPEC (inst (fst (BaseStep_init ex_generate_component json_dumps_py
                               ex_trainer_class [] ex_kwargs_set))) = []"
  by (simp add: BaseStep_init_def new_instance_def ex_kwargs_set_def ex_trainer_class_def
      try_body_def dict_update_def keys_def Let_def)

subsection \<open>The specs of a class are read only\<close>

lemma perform_the_class:
  "the_class (perform generate_component json_dumps w op) = the_class w"
proof (cases op)
  case (Construct star_args kwargs)
  then show ?thesis
    by (simp add: Let_def BaseStep_init_klass split: sum.splits)
next
  case (Invoke i artifacts)
  then show ?thesis
    by (simp add: Let_def BaseStep_call_klass)
next
  case (Inject i ms)
  then show ?thesis
    by (simp add: Let_def with_materializers_klass)
qed

lemma perform_length:
  "length (instances w) \<le> length (instances (perform generate_component json_dumps w op))"
  by (cases op) (simp_all add: Let_def split: sum.splits)

lemma perform_other_instance:
  "k < length (instances w) \<Longrightarrow> target op \<noteq> Some k \<Longrightarrow>
   instances (perform generate_component json_dumps w op) ! k = instances w ! k"
  by (cases op) (simp_all add: Let_def nth_append split: sum.splits)

lemma run_the_class:
  "the_class (foldl (perform generate_component json_dumps) w ops) = the_class w"
  by (induction ops arbitrary: w) (simp_all add: perform_the_class)

lemma run_other_instance:
  "k < length (instances w) \<Longrightarrow> list_all (\<lambda>op. target op \<noteq> Some k) ops \<Longrightarrow>
   instances (foldl (perform generate_component json_dumps) w ops) ! k = instances w ! k"
proof (induction ops arbitrary: w)
  case Nil
  then show ?case by simp
next
  case (Cons op ops)
  let ?w = "perform generate_component json_dumps w op"
  have "k < length (instances ?w)"
    using Cons.prems(1) perform_length[of w generate_component json_dumps op] by simp
  moreover have "list_all (\<lambda>op. target op \<noteq> Some k) ops" using Cons.prems(2) by simp
  ultimately have "instances (foldl (perform generate_component json_dumps) ?w ops) ! k
      = instances ?w ! k"
    by (rule Cons.IH)
  also have "\<dots> = instances w ! k"
    using Cons.prems by (simp add: perform_other_instance)
  finally show ?case by simp
qed

text \<open>
  C10. \<open>__init__\<close>, \<open>__call__\<close> and \<open>with_materializers\<close> return the class attributes
  \<open>INPUT_SPEC\<close>, \<open>OUTPUT_SPEC\<close> and \<open>CONFIG\<close> as they received them, also when they
  raise. So any sequence of constructions, invocations and injections on the instances of
  a class leaves the class as it was, and leaves every instance as it was that no
  operation of the sequence works on.
\<close>

theorem specs_fixed_after_class_construction:
  "klass (fst (BaseStep_init generate_component json_dumps c star_args kwargs)) = c
   \<and> klass (fst (BaseStep_call s artifacts)) = klass s
   \<and> klass (with_materializers s ms) = klass s
   \<and> the_class (foldl (perform generate_component json_dumps) w ops) = the_class w
   \<and> (k < length (instances w) \<and> list_all (\<lambda>op. target op \<noteq> Some k) ops \<longrightarrow>
        instances (foldl (perform generate_component json_dumps) w ops) ! k = instances w ! k)"
  by (simp add: BaseStep_init_klass BaseStep_call_klass with_materializers_klass
      run_the_class run_other_instance)

theorem specs_fixed_after_class_construction_witness:
  "1 < length (instances ex_world)
   \<and> list_all (\<lambda>op. target op \<noteq> Some 1) ex_ops
   \<and> the_class (foldl (perform ex_generate_component json_dumps_py) ex_world ex_ops)
       = ex_trainer_class
   \<and> instances (foldl (perform ex_generate_component json_dumps_py) ex_world ex_ops) ! 1
       = inst ex_step"
proof -
  have a1: "1 < length (instances ex_world)"
    by (simp add: ex_world_def)
  have a2: "list_all (\<lambda>op. target op \<noteq> Some 1) ex_ops"
    by (simp add: ex_ops_def)
  have w: "the_class ex_world = ex_trainer_class" "instances ex_world ! 1 = inst ex_step"
    by (simp_all add: ex_world_def)
  from specs_fixed_after_class_construction
         [of ex_generate_component json_dumps_py ex_trainer_class "[]" ex_kwargs ex_step
             "[(''x'', ''upstream'')]" "[]" ex_world ex_ops 1]
    a1 a2 w show ?thesis by simp
qed

end
